theory Spec2Isabelle
  imports Complex_Main "HOL-Library.AList" "HOL-Library.Log_Nat"
begin

section \<open>JavaScript numbers\<close>

text \<open>
  The program computes on JavaScript \<^verbatim>\<open>number\<close> values. A number is modelled as an exact
  real or one of the three special values of IEEE arithmetic. Except in
  \<^verbatim>\<open>calculateCorrelation\<close>, which is embedded with the rounding of doubles, rounding, overflow
  and underflow are not modelled and arithmetic on finite values is exact. The sign of zero is
  not modelled, and a zero divisor is taken as \<^verbatim>\<open>+0\<close>. The special values follow the language
  definition: \<^verbatim>\<open>0/0\<close>, \<^verbatim>\<open>Infinity - Infinity\<close> and \<^verbatim>\<open>0 * Infinity\<close> are \<^verbatim>\<open>NaN\<close>,
  and \<^verbatim>\<open>NaN\<close> is absorbing. A read of \<^verbatim>\<open>undefined\<close> that is only used in arithmetic
  is modelled as \<^verbatim>\<open>NaN\<close>, which is what the arithmetic turns it into.
\<close>

datatype jsnum = Num real | PInf | NInf | NaN

fun finite_num :: "jsnum \<Rightarrow> bool" where
  "finite_num (Num a) = True"
| "finite_num PInf = False"
| "finite_num NInf = False"
| "finite_num NaN = False"

fun jneg :: "jsnum \<Rightarrow> jsnum" where
  "jneg (Num a) = Num (- a)"
| "jneg PInf = NInf"
| "jneg NInf = PInf"
| "jneg NaN = NaN"

fun jadd :: "jsnum \<Rightarrow> jsnum \<Rightarrow> jsnum" where
  "jadd (Num a) (Num b) = Num (a + b)"
| "jadd NaN y = NaN"
| "jadd x NaN = NaN"
| "jadd PInf NInf = NaN"
| "jadd NInf PInf = NaN"
| "jadd PInf y = PInf"
| "jadd x PInf = PInf"
| "jadd NInf y = NInf"
| "jadd x NInf = NInf"

definition jsub :: "jsnum \<Rightarrow> jsnum \<Rightarrow> jsnum" where
  "jsub x y = jadd x (jneg y)"

fun jmul :: "jsnum \<Rightarrow> jsnum \<Rightarrow> jsnum" where
  "jmul (Num a) (Num b) = Num (a * b)"
| "jmul NaN y = NaN"
| "jmul x NaN = NaN"
| "jmul (Num a) PInf = (if a = 0 then NaN else if 0 < a then PInf else NInf)"
| "jmul (Num a) NInf = (if a = 0 then NaN else if 0 < a then NInf else PInf)"
| "jmul PInf (Num b) = (if b = 0 then NaN else if 0 < b then PInf else NInf)"
| "jmul NInf (Num b) = (if b = 0 then NaN else if 0 < b then NInf else PInf)"
| "jmul PInf PInf = PInf"
| "jmul PInf NInf = NInf"
| "jmul NInf PInf = NInf"
| "jmul NInf NInf = PInf"

fun jdiv :: "jsnum \<Rightarrow> jsnum \<Rightarrow> jsnum" where
  "jdiv (Num a) (Num b) =
     (if b \<noteq> 0 then Num (a / b)
      else if a = 0 then NaN else if 0 < a then PInf else NInf)"
| "jdiv NaN y = NaN"
| "jdiv x NaN = NaN"
| "jdiv (Num a) PInf = Num 0"
| "jdiv (Num a) NInf = Num 0"
| "jdiv PInf (Num b) = (if 0 \<le> b then PInf else NInf)"
| "jdiv NInf (Num b) = (if 0 \<le> b then NInf else PInf)"
| "jdiv PInf PInf = NaN"
| "jdiv PInf NInf = NaN"
| "jdiv NInf PInf = NaN"
| "jdiv NInf NInf = NaN"

text \<open>\<^verbatim>\<open>x ** n\<close> for the exponents 2, 3 and 4 of the source.\<close>

fun jpow :: "jsnum \<Rightarrow> nat \<Rightarrow> jsnum" where
  "jpow (Num a) n = Num (a ^ n)"
| "jpow PInf n = PInf"
| "jpow NInf n = (if even n then PInf else NInf)"
| "jpow NaN n = NaN"

fun jsqrt :: "jsnum \<Rightarrow> jsnum" where
  "jsqrt (Num a) = (if 0 \<le> a then Num (sqrt a) else NaN)"
| "jsqrt PInf = PInf"
| "jsqrt NInf = NaN"
| "jsqrt NaN = NaN"

fun jabs :: "jsnum \<Rightarrow> jsnum" where
  "jabs (Num a) = Num \<bar>a\<bar>"
| "jabs PInf = PInf"
| "jabs NInf = PInf"
| "jabs NaN = NaN"

fun jacos :: "jsnum \<Rightarrow> jsnum" where
  "jacos (Num a) = (if - 1 \<le> a \<and> a \<le> 1 then Num (arccos a) else NaN)"
| "jacos PInf = NaN"
| "jacos NInf = NaN"
| "jacos NaN = NaN"

fun jlog2 :: "jsnum \<Rightarrow> jsnum" where
  "jlog2 (Num a) = (if 0 < a then Num (log 2 a) else if a = 0 then NInf else NaN)"
| "jlog2 PInf = PInf"
| "jlog2 NInf = NaN"
| "jlog2 NaN = NaN"

fun jfloor :: "jsnum \<Rightarrow> jsnum" where
  "jfloor (Num a) = Num (of_int \<lfloor>a\<rfloor>)"
| "jfloor x = x"

fun jtan :: "jsnum \<Rightarrow> jsnum" where
  "jtan (Num a) = Num (tan a)"
| "jtan x = NaN"

text \<open>\<^verbatim>\<open>Math.min\<close> and \<^verbatim>\<open>Math.max\<close> of two numbers: \<^verbatim>\<open>NaN\<close> if either is.\<close>

fun jmin :: "jsnum \<Rightarrow> jsnum \<Rightarrow> jsnum" where
  "jmin (Num a) (Num b) = Num (min a b)"
| "jmin NaN y = NaN"
| "jmin x NaN = NaN"
| "jmin NInf y = NInf"
| "jmin x NInf = NInf"
| "jmin PInf y = y"
| "jmin x PInf = x"

fun jmax :: "jsnum \<Rightarrow> jsnum \<Rightarrow> jsnum" where
  "jmax (Num a) (Num b) = Num (max a b)"
| "jmax NaN y = NaN"
| "jmax x NaN = NaN"
| "jmax PInf y = PInf"
| "jmax x PInf = PInf"
| "jmax NInf y = y"
| "jmax x NInf = x"

text \<open>\<^verbatim>\<open>Math.min(...xs)\<close> and \<^verbatim>\<open>Math.max(...xs)\<close>: the empty spread gives the infinities.\<close>

definition Math_min :: "jsnum list \<Rightarrow> jsnum" where
  "Math_min xs = foldl jmin PInf xs"

definition Math_max :: "jsnum list \<Rightarrow> jsnum" where
  "Math_max xs = foldl jmax NInf xs"

text \<open>Strict equality \<^verbatim>\<open>===\<close> on numbers: \<^verbatim>\<open>NaN\<close> equals nothing.\<close>

definition strict_eq :: "jsnum \<Rightarrow> jsnum \<Rightarrow> bool" where
  "strict_eq x y = (x \<noteq> NaN \<and> x = y)"

section \<open>Arrays\<close>

text \<open>
  \<^verbatim>\<open>xs.reduce(f, init)\<close> is a left fold; the three-argument callback also receives the
  index. \<^verbatim>\<open>xs[i]\<close> beyond the end is \<^verbatim>\<open>undefined\<close>, read as \<^verbatim>\<open>NaN\<close> by arithmetic.
\<close>

abbreviation reduce :: "('b \<Rightarrow> 'a \<Rightarrow> 'b) \<Rightarrow> 'b \<Rightarrow> 'a list \<Rightarrow> 'b" where
  "reduce f init xs \<equiv> foldl f init xs"

definition reduce_i :: "('b \<Rightarrow> 'a \<Rightarrow> nat \<Rightarrow> 'b) \<Rightarrow> 'b \<Rightarrow> 'a list \<Rightarrow> 'b" where
  "reduce_i f init xs = foldl (\<lambda>acc (x, i). f acc x i) init (zip xs [0..<length xs])"

definition len :: "'a list \<Rightarrow> jsnum" where
  "len xs = Num (of_nat (length xs))"

definition aget :: "jsnum list \<Rightarrow> nat \<Rightarrow> jsnum" where
  "aget xs i = (if i < length xs then xs ! i else NaN)"

section \<open>Rounding to IEEE doubles\<close>

text \<open>
  A JavaScript number is an IEEE 754 binary64 value, and an arithmetic operation returns the
  representable value nearest to the exact result (round to nearest, ties to even, gradual
  underflow below \<^verbatim>\<open>2 ^ -1022\<close>, infinity from \<^verbatim>\<open>2 ^ 1024\<close> on). \<open>dbl x\<close> is that value for the
  real \<open>x\<close>; the sign of zero is not represented. \<^verbatim>\<open>+\<close>, \<^verbatim>\<open>-\<close>, \<^verbatim>\<open>*\<close>, \<^verbatim>\<open>/\<close> and \<^verbatim>\<open>Math.sqrt\<close> are
  correctly rounded; \<^verbatim>\<open>x ** 2\<close> is taken as the correctly rounded square.
\<close>

definition round_even :: "real \<Rightarrow> int" where
  "round_even y =
     (let f = \<lfloor>y\<rfloor>; d = y - of_int f
      in if d < 1 / 2 then f else if 1 / 2 < d then f + 1 else if even f then f else f + 1)"

definition dbl :: "real \<Rightarrow> jsnum" where
  "dbl x =
     (let e = max \<lfloor>log 2 \<bar>x\<bar>\<rfloor> (- 1022);
          r = of_int (round_even (x * 2 powi (52 - e))) * 2 powi (e - 52)
      in if x = 0 then Num 0
         else if 2 powi 1024 \<le> \<bar>r\<bar> then (if 0 < x then PInf else NInf)
         else Num r)"

fun round_num :: "jsnum \<Rightarrow> jsnum" where
  "round_num (Num a) = dbl a"
| "round_num PInf = PInf"
| "round_num NInf = NInf"
| "round_num NaN = NaN"

definition dadd :: "jsnum \<Rightarrow> jsnum \<Rightarrow> jsnum" where
  "dadd x y = round_num (jadd x y)"

definition dsub :: "jsnum \<Rightarrow> jsnum \<Rightarrow> jsnum" where
  "dsub x y = round_num (jsub x y)"

definition dmul :: "jsnum \<Rightarrow> jsnum \<Rightarrow> jsnum" where
  "dmul x y = round_num (jmul x y)"

definition ddiv :: "jsnum \<Rightarrow> jsnum \<Rightarrow> jsnum" where
  "ddiv x y = round_num (jdiv x y)"

definition dpow :: "jsnum \<Rightarrow> nat \<Rightarrow> jsnum" where
  "dpow x n = round_num (jpow x n)"

definition dsqrt :: "jsnum \<Rightarrow> jsnum" where
  "dsqrt x = round_num (jsqrt x)"

section \<open>Feature extraction: correlation\<close>

text \<open>
  \<^verbatim>\<open>calculateCorrelation\<close> is embedded with every operation rounded to a double;
  \<^verbatim>\<open>signal.length\<close> is an integer and exact. \<open>calculateCorrelation_exact\<close> is the same
  computation carried out without rounding.
\<close>

definition calculateCorrelation :: "jsnum list \<Rightarrow> jsnum list \<Rightarrow> jsnum" where
  "calculateCorrelation signal1 signal2 =
     (let mean1 = ddiv (reduce dadd (Num 0) signal1) (len signal1);
          mean2 = ddiv (reduce dadd (Num 0) signal2) (len signal2);
          numerator =
            reduce_i (\<lambda>sum x i. dadd sum (dmul (dsub x mean1) (dsub (aget signal2 i) mean2)))
              (Num 0) signal1;
          denominator =
            dsqrt (dmul (reduce (\<lambda>sum x. dadd sum (dpow (dsub x mean1) 2)) (Num 0) signal1)
                        (reduce (\<lambda>sum x. dadd sum (dpow (dsub x mean2) 2)) (Num 0) signal2))
      in ddiv numerator denominator)"



section \<open>Errors\<close>

text \<open>
  The exceptions the code can raise: \<^verbatim>\<open>RangeError\<close> from \<^verbatim>\<open>new Array(n)\<close> with a negative or
  fractional length, \<^verbatim>\<open>TypeError\<close> from a property read on \<^verbatim>\<open>undefined\<close>, and the error the
  constructor of the FFT library raises for a size that is not a power of two above 1.
\<close>

datatype error = RangeError | TypeError | FFTSizeError

definition ebind :: "error + 'a \<Rightarrow> ('a \<Rightarrow> error + 'b) \<Rightarrow> error + 'b" where
  "ebind m f = (case m of Inl e \<Rightarrow> Inl e | Inr v \<Rightarrow> f v)"

fun efold :: "('a \<Rightarrow> 's \<Rightarrow> error + 's) \<Rightarrow> 'a list \<Rightarrow> 's \<Rightarrow> error + 's" where
  "efold f [] s = Inr s"
| "efold f (a # as) s = ebind (f a s) (efold f as)"

section \<open>Signal processor (components/Signal\_Processor.ts)\<close>

record SensorReading =
  reading_x :: jsnum
  reading_y :: jsnum
  reading_z :: jsnum
  timestamp :: jsnum

record AxisGroup =
  axis_x :: "jsnum list"
  axis_y :: "jsnum list"
  axis_z :: "jsnum list"
  magnitude :: "jsnum list"

record TimeSignals =
  time_body :: AxisGroup
  time_gravity :: AxisGroup
  time_bodyJerk :: AxisGroup

record FrequencySignals =
  frequency_body :: AxisGroup
  frequency_bodyJerk :: AxisGroup

record ProcessedSignals =
  time :: TimeSignals
  frequency :: FrequencySignals

definition samplingRate :: jsnum where
  "samplingRate = Num 50"

definition windowSize :: nat where
  "windowSize = 128"

definition overlap :: nat where
  "overlap = 64"

subsection \<open>Sorting with the comparator \<^verbatim>\<open>(a, b) => a - b\<close>\<close>

text \<open>
  On finite numbers the comparator is a consistent order and the result is the ascending
  sort. With \<^verbatim>\<open>NaN\<close> among the elements (or two infinities of one sign) the comparator
  returns \<^verbatim>\<open>NaN\<close>, the order is implementation-defined, and the model fixes the one of an
  insertion sort that moves an element past those it compares greater than.
\<close>

definition comparator_positive :: "jsnum \<Rightarrow> jsnum \<Rightarrow> bool" where
  "comparator_positive a b = (case jsub a b of Num d \<Rightarrow> 0 < d | PInf \<Rightarrow> True | NInf \<Rightarrow> False | NaN \<Rightarrow> False)"

fun insert_sorted :: "jsnum \<Rightarrow> jsnum list \<Rightarrow> jsnum list" where
  "insert_sorted a [] = [a]"
| "insert_sorted a (b # bs) = (if comparator_positive a b then b # insert_sorted a bs else a # b # bs)"

definition sort_numbers :: "jsnum list \<Rightarrow> jsnum list" where
  "sort_numbers xs = foldr insert_sorted xs []"

subsection \<open>Median filter\<close>

text \<open>
  The inner loop runs \<^verbatim>\<open>j\<close> from \<^verbatim>\<open>max(0, i - floor(windowSize/2))\<close>, which is the truncated
  subtraction on naturals, up to \<^verbatim>\<open>min(data.length, i + floor(windowSize/2) + 1)\<close>.
\<close>

definition medianFilter :: "jsnum list \<Rightarrow> nat \<Rightarrow> jsnum list" where
  "medianFilter data wsize =
     map (\<lambda>i. let window = map (\<lambda>j. data ! j)
                               [i - wsize div 2 ..< min (length data) (i + wsize div 2 + 1)];
                   sorted_window = sort_numbers window
               in aget sorted_window (length sorted_window div 2))
         [0 ..< length data]"

subsection \<open>Butterworth filter\<close>

text \<open>The loop carries the two previous inputs and outputs, all zero at the start.\<close>

fun butterworth_loop ::
  "jsnum \<Rightarrow> jsnum \<Rightarrow> jsnum \<Rightarrow> jsnum \<Rightarrow> jsnum \<Rightarrow> jsnum list \<Rightarrow> jsnum \<times> jsnum \<times> jsnum \<times> jsnum \<Rightarrow> jsnum list"
where
  "butterworth_loop b0 b1 b2 a1 a2 [] st = []"
| "butterworth_loop b0 b1 b2 a1 a2 (x0 # rest) (x1, x2, y1, y2) =
     (let y0 = jsub (jsub (jadd (jadd (jmul b0 x0) (jmul b1 x1)) (jmul b2 x2)) (jmul a1 y1))
                    (jmul a2 y2)
      in y0 # butterworth_loop b0 b1 b2 a1 a2 rest (x0, x1, y0, y1))"

text \<open>The parameter \<^verbatim>\<open>order\<close> (default 3) is accepted and never read.\<close>

definition butterworthFilter :: "jsnum list \<Rightarrow> jsnum \<Rightarrow> nat \<Rightarrow> jsnum list" where
  "butterworthFilter data cutoffFreq order =
     (let wc = jtan (jdiv (jmul (Num pi) cutoffFreq) samplingRate);
          k1 = jmul (jsqrt (Num 2)) wc;
          k2 = jmul wc wc;
          a = jadd (jadd (Num 1) k1) k2;
          b0 = jdiv k2 a;
          b1 = jmul (Num 2) b0;
          b2 = b0;
          a1 = jdiv (jmul (Num 2) (jsub k2 (Num 1))) a;
          a2 = jdiv (jadd (jsub (Num 1) k1) k2) a
      in butterworth_loop b0 b1 b2 a1 a2 data (Num 0, Num 0, Num 0, Num 0))"

subsection \<open>Jerk and magnitude\<close>

text \<open>
  \<^verbatim>\<open>new Array(data.length - 1)\<close> raises \<^verbatim>\<open>RangeError\<close> for the empty series. The loop then
  fills every slot \<^verbatim>\<open>i - 1\<close> for \<^verbatim>\<open>i = 1 .. data.length - 1\<close>; nothing checks \<^verbatim>\<open>dt\<close>.
\<close>

definition calculateJerk :: "jsnum list \<Rightarrow> jsnum list \<Rightarrow> error + jsnum list" where
  "calculateJerk data timestamps =
     (if length data = 0 then Inl RangeError
      else Inr (map (\<lambda>i. let dt = jdiv (jsub (aget timestamps i) (aget timestamps (i - 1))) (Num 1000)
                          in jdiv (jsub (aget data i) (aget data (i - 1))) dt)
                    [1 ..< length data]))"

definition calculateMagnitude :: "jsnum list \<Rightarrow> jsnum list \<Rightarrow> jsnum list \<Rightarrow> jsnum list" where
  "calculateMagnitude xs ys zs =
     map (\<lambda>i. jsqrt (jadd (jadd (jpow (aget xs i) 2) (jpow (aget ys i) 2)) (jpow (aget zs i) 2)))
         [0 ..< length xs]"

subsection \<open>Spectral transform\<close>

text \<open>
  \<^verbatim>\<open>Math.pow(2, Math.ceil(Math.log2(n)))\<close>: the least power of two that is at least \<^verbatim>\<open>n\<close>,
  and \<^verbatim>\<open>0\<close> for \<^verbatim>\<open>n = 0\<close> (the logarithm is \<^verbatim>\<open>-Infinity\<close> there). The library constant
  \<^const>\<open>ceillog2\<close> is \<open>nat \<lceil>log 2 (real n)\<rceil>\<close> for positive \<open>n\<close>.
\<close>

definition fftSize_of :: "nat \<Rightarrow> nat" where
  "fftSize_of n = (if n = 0 then 0 else 2 ^ ceillog2 n)"

text \<open>
  Modelled from the spec: the transform of the library \<^verbatim>\<open>fft.js\<close>, which is imported and
  not part of the repository. The spec describes it as the standard complex DFT on
  interleaved real/imaginary pairs; \<open>transform n input\<close> is the array \<^verbatim>\<open>out\<close> after
  \<^verbatim>\<open>transform(out, input)\<close>, of length \<open>2 * n\<close> as \<^verbatim>\<open>createComplexArray\<close> makes it.
\<close>

definition dft_re :: "nat \<Rightarrow> jsnum list \<Rightarrow> nat \<Rightarrow> jsnum" where
  "dft_re n inp k =
     reduce jadd (Num 0)
       (map (\<lambda>j. jadd (jmul (aget inp (2 * j)) (Num (cos (2 * pi * real j * real k / real n))))
                      (jmul (aget inp (2 * j + 1)) (Num (sin (2 * pi * real j * real k / real n)))))
            [0 ..< n])"

definition dft_im :: "nat \<Rightarrow> jsnum list \<Rightarrow> nat \<Rightarrow> jsnum" where
  "dft_im n inp k =
     reduce jadd (Num 0)
       (map (\<lambda>j. jsub (jmul (aget inp (2 * j + 1)) (Num (cos (2 * pi * real j * real k / real n))))
                      (jmul (aget inp (2 * j)) (Num (sin (2 * pi * real j * real k / real n)))))
            [0 ..< n])"

definition transform :: "nat \<Rightarrow> jsnum list \<Rightarrow> jsnum list" where
  "transform n inp = concat (map (\<lambda>k. [dft_re n inp k, dft_im n inp k]) [0 ..< n])"

text \<open>
  The constructor \<^verbatim>\<open>new FFT(fftSize)\<close> rejects a size that is at most 1 (the size is a
  power of two by construction). The conversion to \<^verbatim>\<open>Float32Array\<close> rounds, which the
  number model leaves out.
\<close>

definition fft :: "jsnum list \<Rightarrow> error + jsnum list" where
  "fft data =
     (let fftSize = fftSize_of (length data)
      in if fftSize \<le> 1 then Inl FFTSizeError
         else let padded = data @ replicate (fftSize - length data) (Num 0);
                  input = concat (map (\<lambda>val. [val, Num 0]) padded)
              in Inr (transform fftSize input))"

subsection \<open>One axis\<close>

record AxisResult =
  bodyComponent :: "jsnum list"
  gravityComponent :: "jsnum list"
  jerk :: "jsnum list"
  frequencyDomain :: "jsnum list"

definition processAxis :: "jsnum list \<Rightarrow> jsnum list \<Rightarrow> jsnum \<Rightarrow> error + AxisResult" where
  "processAxis data timestamps cutoffFreq =
     (let medianFiltered = medianFilter data 3;
          noiseFiltered = butterworthFilter medianFiltered cutoffFreq 3;
          gravityComponent = butterworthFilter noiseFiltered (Num 0.3) 3;
          bodyComponent = map (\<lambda>(val, i). jsub val (aget gravityComponent i))
                              (zip noiseFiltered [0 ..< length noiseFiltered])
      in ebind (calculateJerk bodyComponent timestamps) (\<lambda>jerk.
         ebind (fft bodyComponent) (\<lambda>frequencyDomain.
         Inr \<lparr> bodyComponent = bodyComponent, gravityComponent = gravityComponent,
               jerk = jerk, frequencyDomain = frequencyDomain \<rparr>)))"

subsection \<open>The whole reading sequence\<close>

definition slice :: "'a list \<Rightarrow> nat \<Rightarrow> nat \<Rightarrow> 'a list" where
  "slice xs i j = take (j - i) (drop i xs)"

text \<open>
  The windowing loop: \<^verbatim>\<open>for (i = 0; i < readings.length - windowSize; i += windowSize / 2)\<close>.
  The bound can be negative, so the comparison is on integers.
\<close>

function windowing_loop ::
  "SensorReading list \<Rightarrow> nat \<Rightarrow> SensorReading list list \<Rightarrow> SensorReading list list"
where
  "windowing_loop readings i windows =
     (if int i < int (length readings) - int windowSize
      then windowing_loop readings (i + windowSize div 2)
             (windows @ [slice readings i (i + windowSize)])
      else windows)"
  by pat_completeness auto
termination
  by (relation "measure (\<lambda>(readings, i, windows). length readings - i)")
     (auto simp: windowSize_def)

declare windowing_loop.simps [simp del]

text \<open>
  Everything after the windowing loop. The array \<^verbatim>\<open>windows\<close> is in scope there, so it is
  a parameter of this part.
\<close>

definition processReadings ::
  "SensorReading list list \<Rightarrow> SensorReading list \<Rightarrow> jsnum \<Rightarrow> error + ProcessedSignals"
where
  "processReadings windows readings cutoffFreq =
     (let timestamps = map timestamp readings;
          xData = map reading_x readings;
          yData = map reading_y readings;
          zData = map reading_z readings
      in ebind (processAxis xData timestamps cutoffFreq) (\<lambda>xProcessed.
         ebind (processAxis yData timestamps cutoffFreq) (\<lambda>yProcessed.
         ebind (processAxis zData timestamps cutoffFreq) (\<lambda>zProcessed.
         let bodyMag = calculateMagnitude (bodyComponent xProcessed) (bodyComponent yProcessed)
                         (bodyComponent zProcessed);
             gravityMag = calculateMagnitude (gravityComponent xProcessed)
                            (gravityComponent yProcessed) (gravityComponent zProcessed);
             bodyJerkMag = calculateMagnitude (jerk xProcessed) (jerk yProcessed) (jerk zProcessed);
             bodyFreqMag = calculateMagnitude (frequencyDomain xProcessed)
                             (frequencyDomain yProcessed) (frequencyDomain zProcessed)
         in Inr \<lparr> time =
                    \<lparr> time_body =
                        \<lparr> axis_x = bodyComponent xProcessed, axis_y = bodyComponent yProcessed,
                          axis_z = bodyComponent zProcessed, magnitude = bodyMag \<rparr>,
                      time_gravity =
                        \<lparr> axis_x = gravityComponent xProcessed, axis_y = gravityComponent yProcessed,
                          axis_z = gravityComponent zProcessed, magnitude = gravityMag \<rparr>,
                      time_bodyJerk =
                        \<lparr> axis_x = jerk xProcessed, axis_y = jerk yProcessed,
                          axis_z = jerk zProcessed, magnitude = bodyJerkMag \<rparr> \<rparr>,
                  frequency =
                    \<lparr> frequency_body =
                        \<lparr> axis_x = frequencyDomain xProcessed, axis_y = frequencyDomain yProcessed,
                          axis_z = frequencyDomain zProcessed, magnitude = bodyFreqMag \<rparr>,
                      frequency_bodyJerk =
                        \<lparr> axis_x = frequencyDomain xProcessed, axis_y = frequencyDomain yProcessed,
                          axis_z = frequencyDomain zProcessed, magnitude = bodyFreqMag \<rparr> \<rparr> \<rparr>))))"

definition processSensorData :: "SensorReading list \<Rightarrow> jsnum \<Rightarrow> error + ProcessedSignals" where
  "processSensorData readings cutoffFreq =
     (let windows = windowing_loop readings 0 []
      in processReadings windows readings cutoffFreq)"

section \<open>Feature extractor (components/featureExtraction)\<close>

text \<open>
  A feature object \<^verbatim>\<open>{ [key: string]: number }\<close> is an association list in insertion
  order: an assignment to an existing key replaces the value in place, a new key goes to
  the end. A missing key reads as \<^verbatim>\<open>undefined\<close>.
\<close>

type_synonym features = "(string \<times> jsnum) list"

definition put :: "string \<Rightarrow> jsnum \<Rightarrow> features \<Rightarrow> features" where
  "put k v fs = AList.update k v fs"

definition getf :: "features \<Rightarrow> string \<Rightarrow> jsnum" where
  "getf fs k = (case map_of fs k of Some v \<Rightarrow> v | None \<Rightarrow> NaN)"

text \<open>\<^verbatim>\<open>Object.entries(src).forEach(([feature, value]) => dst[name(feature)] = value)\<close>.\<close>

definition put_entries :: "(string \<Rightarrow> string) \<Rightarrow> features \<Rightarrow> features \<Rightarrow> features" where
  "put_entries name src dst = foldl (\<lambda>acc (feature, val). put (name feature) val acc) dst src"

text \<open>The decimal numeral of a template literal \<^verbatim>\<open>${n}\<close>.\<close>

definition digit_char :: "nat \<Rightarrow> char" where
  "digit_char d = ''0123456789'' ! d"

fun string_of_nat :: "nat \<Rightarrow> string" where
  "string_of_nat n = (if n < 10 then [digit_char n] else string_of_nat (n div 10) @ [digit_char (n mod 10)])"

subsection \<open>Autoregression coefficients (Burg)\<close>

text \<open>
  Each of the \<^verbatim>\<open>order\<close> passes first accumulates \<^verbatim>\<open>num\<close> and \<^verbatim>\<open>den\<close>, then updates the
  copies \<^verbatim>\<open>f\<close> and \<^verbatim>\<open>b\<close> of the data in place, reading \<^verbatim>\<open>f[n]\<close> into \<^verbatim>\<open>temp\<close> before the
  write.
\<close>

definition burg_sums :: "jsnum list \<Rightarrow> jsnum list \<Rightarrow> nat \<Rightarrow> nat \<Rightarrow> jsnum \<times> jsnum" where
  "burg_sums f b m N =
     foldl (\<lambda>(num, den) n.
              (jadd num (jmul (aget f n) (aget b (n - 1))),
               jadd den (jadd (jpow (aget f n) 2) (jpow (aget b (n - 1)) 2))))
           (Num 0, Num 0) [m + 1 ..< N]"

definition burg_update :: "jsnum \<Rightarrow> jsnum list \<Rightarrow> jsnum list \<Rightarrow> nat \<Rightarrow> nat \<Rightarrow> jsnum list \<times> jsnum list" where
  "burg_update k f b m N =
     foldl (\<lambda>(f, b) n.
              (let temp = aget f n;
                   f' = f[n := jadd (aget f n) (jmul k (aget b (n - 1)))];
                   b' = b[n - 1 := jadd (aget b (n - 1)) (jmul k temp)]
               in (f', b')))
           (f, b) [m + 1 ..< N]"

definition calculateARCoefficients :: "jsnum list \<Rightarrow> nat \<Rightarrow> jsnum list" where
  "calculateARCoefficients data order =
     (let N = length data;
          ar = replicate order (Num 0);
          f = data;
          b = data
      in fst (foldl (\<lambda>(ar, f, b) m.
                       (let (num, den) = burg_sums f b m N;
                            k = jdiv (jmul (Num (- 2)) num) den;
                            ar' = ar[m := k];
                            (f', b') = burg_update k f b m N
                        in (ar', f', b')))
                    (ar, f, b) [0 ..< order]))"

subsection \<open>Statistics shared by the time and the frequency features\<close>

text \<open>
  \<^verbatim>\<open>bins[binIdx]++\<close>: an index that is not one of \<^verbatim>\<open>0 .. 9\<close> (\<^verbatim>\<open>NaN\<close> when the range is zero)
  creates a property beside the array elements, which \<^verbatim>\<open>map\<close> and \<^verbatim>\<open>reduce\<close> never see.
\<close>

definition bump_bin :: "nat list \<Rightarrow> jsnum \<Rightarrow> nat list" where
  "bump_bin bins binIdx =
     (case binIdx of
        Num k \<Rightarrow> if 0 \<le> k \<and> k < real (length bins) then bins[nat \<lfloor>k\<rfloor> := Suc (bins ! nat \<lfloor>k\<rfloor>)] else bins
      | PInf \<Rightarrow> bins | NInf \<Rightarrow> bins | NaN \<Rightarrow> bins)"

definition entropy_of :: "jsnum list \<Rightarrow> jsnum \<Rightarrow> jsnum \<Rightarrow> jsnum" where
  "entropy_of data minVal maxVal =
     (let n = len data;
          bins = replicate 10 (0::nat);
          range = jsub maxVal minVal;
          bins = foldl (\<lambda>bins val.
                          bump_bin bins
                            (jmin (jfloor (jmul (jdiv (jsub val minVal) range) (Num 10))) (Num 9)))
                       bins data
      in jneg (reduce jadd (Num 0)
                 (map (\<lambda>count. let p = jdiv (Num (real count)) n
                               in if strict_eq p (Num 0) then Num 0 else jmul p (jlog2 p))
                      bins)))"

text \<open>
  The eight statistics both feature functions compute with the same statements, in the
  order of their assignments. \<^verbatim>\<open>Math.floor(n * 0.25)\<close> and \<^verbatim>\<open>Math.floor(n * 0.75)\<close> are
  \<open>n div 4\<close> and \<open>3 * n div 4\<close> on the length.
\<close>

definition basic_statistics :: "jsnum list \<Rightarrow> features" where
  "basic_statistics data =
     (let n = len data;
          mean = jdiv (reduce jadd (Num 0) data) n;
          std = jsqrt (jdiv (reduce (\<lambda>a b. jadd a (jpow (jsub b mean) 2)) (Num 0) data) n);
          sortedData = sort_numbers data;
          median = aget sortedData (length data div 2);
          energy = jdiv (reduce (\<lambda>a b. jadd a (jmul b b)) (Num 0) data) n;
          features = [];
          features = put ''mean()'' mean features;
          features = put ''std()'' std features;
          features = put ''mad()''
                       (jdiv (reduce jadd (Num 0) (map (\<lambda>x. jabs (jsub x median)) data)) n) features;
          features = put ''max()'' (Math_max data) features;
          features = put ''min()'' (Math_min data) features;
          features = put ''energy()'' energy features;
          q1 = aget sortedData (length data div 4);
          q3 = aget sortedData (3 * length data div 4);
          features = put ''iqr()'' (jsub q3 q1) features;
          features = put ''entropy()'' (entropy_of data (getf features ''min()'') (getf features ''max()'')) features
      in features)"

subsection \<open>Time features\<close>

definition calculateTimeFeatures :: "jsnum list \<Rightarrow> features" where
  "calculateTimeFeatures data =
     (let features = basic_statistics data;
          arCoeffs = calculateARCoefficients data 4
      in foldl (\<lambda>features (coeff, i). put (''arCoeff()'' @ string_of_nat (i + 1)) coeff features)
           features (zip arCoeffs [0 ..< length arCoeffs]))"

subsection \<open>Frequency features\<close>

text \<open>
  \<^verbatim>\<open>new Array(fftData.length / 2)\<close> raises \<^verbatim>\<open>RangeError\<close> for an odd length. The magnitude
  of bin \<^verbatim>\<open>i\<close> is taken from the entries \<^verbatim>\<open>2 i\<close> and \<^verbatim>\<open>2 i + 1\<close>.
\<close>

definition magnitude_spectrum :: "jsnum list \<Rightarrow> error + jsnum list" where
  "magnitude_spectrum fftData =
     (if odd (length fftData) then Inl RangeError
      else Inr (map (\<lambda>i. jsqrt (jadd (jpow (aget fftData (2 * i)) 2) (jpow (aget fftData (2 * i + 1)) 2)))
                    [0 ..< length fftData div 2]))"

text \<open>\<^verbatim>\<open>xs.indexOf(v)\<close>: the first index whose element is strictly equal, or \<^verbatim>\<open>-1\<close>.\<close>

fun indexOf_from :: "jsnum list \<Rightarrow> jsnum \<Rightarrow> nat \<Rightarrow> jsnum" where
  "indexOf_from [] v i = Num (- 1)"
| "indexOf_from (x # xs) v i = (if strict_eq x v then Num (real i) else indexOf_from xs v (Suc i))"

definition indexOf :: "jsnum list \<Rightarrow> jsnum \<Rightarrow> jsnum" where
  "indexOf xs v = indexOf_from xs v 0"

definition calculateFrequencyFeatures :: "jsnum list \<Rightarrow> error + features" where
  "calculateFrequencyFeatures fftData =
     (let features = basic_statistics fftData
      in ebind (magnitude_spectrum fftData) (\<lambda>magnitudes.
         let (weightedSum, totalMagnitude) =
               reduce_i (\<lambda>(weightedSum, totalMagnitude) mag i.
                           (jadd weightedSum (jmul mag (Num (real i))), jadd totalMagnitude mag))
                        (Num 0, Num 0) magnitudes;
             features = put ''meanFreq()'' (jdiv weightedSum totalMagnitude) features;
             features = put ''maxInds'' (indexOf magnitudes (Math_max magnitudes)) features;
             magmean = jdiv (reduce jadd (Num 0) magnitudes) (len magnitudes);
             magstd = jsqrt (jdiv (reduce (\<lambda>a b. jadd a (jpow (jsub b magmean) 2)) (Num 0) magnitudes)
                                  (len magnitudes));
             features = put ''skewness()''
                          (jdiv (reduce (\<lambda>a b. jadd a (jpow (jdiv (jsub b magmean) magstd) 3)) (Num 0) magnitudes)
                                (len magnitudes)) features;
             features = put ''kurtosis()''
                          (jsub (jdiv (reduce (\<lambda>a b. jadd a (jpow (jdiv (jsub b magmean) magstd) 4)) (Num 0) magnitudes)
                                      (len magnitudes))
                                (Num 3)) features
         in Inr features))"

subsection \<open>Band energies\<close>

definition bands :: "(nat \<times> nat) list" where
  "bands = [(0, 8), (8, 16), (16, 24), (24, 32), (32, 40), (40, 48), (48, 56), (56, 64),
            (0, 16), (16, 32), (32, 48), (48, 64), (0, 24), (24, 48)]"

definition calculateBandsEnergy :: "jsnum list \<Rightarrow> nat \<Rightarrow> features" where
  "calculateBandsEnergy magnitudes numBands =
     (let bandSize = length magnitudes div numBands
      in foldl (\<lambda>features (band_start, band_end).
                  (let start = band_start * bandSize;
                       end = band_end * bandSize;
                       energy = jdiv (reduce (\<lambda>sum mag. jadd sum (jpow mag 2)) (Num 0)
                                        (slice magnitudes start end))
                                     (Num (real end - real start))
                   in put (''bandsEnergy()-'' @ string_of_nat (band_start + 1) @ '','' @ string_of_nat band_end)
                        energy features))
               [] bands)"

subsection \<open>The feature vector of one window\<close>

text \<open>
  The argument of \<^verbatim>\<open>extractFeatures\<close> maps a signal name to a mapping from an axis name
  to a series. Reading an axis of a signal that is absent, or the length of an axis that
  is absent, raises \<^verbatim>\<open>TypeError\<close>; the guard \<^verbatim>\<open>if (processedSignals[signalType][axis])\<close>
  holds for every array, also the empty one.
\<close>

type_synonym signals = "string \<rightharpoonup> (string \<rightharpoonup> jsnum list)"

definition signal_of :: "signals \<Rightarrow> string \<Rightarrow> error + (string \<rightharpoonup> jsnum list)" where
  "signal_of processedSignals signalType =
     (case processedSignals signalType of None \<Rightarrow> Inl TypeError | Some sig \<Rightarrow> Inr sig)"

definition series_of :: "(string \<rightharpoonup> jsnum list) \<Rightarrow> string \<Rightarrow> error + jsnum list" where
  "series_of sig axis = (case sig axis of None \<Rightarrow> Inl TypeError | Some xs \<Rightarrow> Inr xs)"

definition sum_abs :: "jsnum list \<Rightarrow> jsnum" where
  "sum_abs xs = reduce (\<lambda>sum val. jadd sum (jabs val)) (Num 0) xs"

text \<open>The body of the first \<^verbatim>\<open>forEach\<close>: one three-axis time-domain signal.\<close>

definition time_signal :: "signals \<Rightarrow> string \<Rightarrow> features \<Rightarrow> error + features" where
  "time_signal processedSignals signalType features =
     ebind (signal_of processedSignals signalType) (\<lambda>sig.
       let (sma, features) =
             foldl (\<lambda>(sma, features) axis.
                      (case sig axis of
                         None \<Rightarrow> (sma, features)
                       | Some axisData \<Rightarrow>
                           (jadd sma (sum_abs axisData),
                            put_entries (\<lambda>feature. signalType @ ''-'' @ feature @ ''-'' @ axis)
                              (calculateTimeFeatures axisData) features)))
                   (Num 0, features) [''x'', ''y'', ''z'']
       in ebind (series_of sig ''x'') (\<lambda>xs.
          let features = put (signalType @ ''-sma()'') (jdiv sma (len xs)) features
          in ebind (series_of sig ''y'') (\<lambda>ys.
             let features = put (signalType @ ''-correlation()-x,y'') (calculateCorrelation xs ys) features
             in ebind (series_of sig ''z'') (\<lambda>zs.
                let features = put (signalType @ ''-correlation()-x,z'') (calculateCorrelation xs zs) features;
                    features = put (signalType @ ''-correlation()-y,z'') (calculateCorrelation ys zs) features
                in Inr features))))"

text \<open>The body of the second \<^verbatim>\<open>forEach\<close>: one time-domain magnitude signal.\<close>

definition time_magnitude_signal :: "signals \<Rightarrow> string \<Rightarrow> features \<Rightarrow> error + features" where
  "time_magnitude_signal processedSignals signalType features =
     ebind (signal_of processedSignals signalType) (\<lambda>sig.
       let (sma, features) =
             (case sig ''mag'' of
                None \<Rightarrow> (Num 0, features)
              | Some axisData \<Rightarrow>
                  (jadd (Num 0) (sum_abs axisData),
                   put_entries (\<lambda>feature. signalType @ ''-'' @ feature)
                     (calculateTimeFeatures axisData) features))
       in ebind (series_of sig ''mag'') (\<lambda>mag.
          Inr (put (signalType @ ''-sma()'') (jdiv sma (len mag)) features)))"

text \<open>
  The body of the third \<^verbatim>\<open>forEach\<close>: one three-axis frequency-domain signal, with the
  body of its loop over the axes first. The \<^verbatim>\<open>sma()\<close> entry is assigned inside the axis
  loop, after each axis.
\<close>

fun frequency_axis ::
  "(string \<rightharpoonup> jsnum list) \<Rightarrow> string \<Rightarrow> string \<Rightarrow> jsnum \<times> features \<Rightarrow> error + jsnum \<times> features"
where
  "frequency_axis sig signalType axis (sma, features) =
     (case sig axis of
        None \<Rightarrow> Inr (sma, features)
      | Some axisData \<Rightarrow>
          (let sma = jadd sma (sum_abs axisData)
           in ebind (calculateFrequencyFeatures axisData) (\<lambda>freqFeatures.
              let features =
                    put_entries (\<lambda>feature. signalType @ ''-'' @ feature @ ''-'' @ axis)
                      freqFeatures features
              in ebind (series_of sig ''x'') (\<lambda>xs.
                 let features = put (signalType @ ''-sma()'') (jdiv sma (len xs)) features
                 in ebind (magnitude_spectrum axisData) (\<lambda>magnitudes.
                    let bandFeatures = calculateBandsEnergy magnitudes 64
                    in Inr (sma,
                            put_entries (\<lambda>feature. signalType @ ''-'' @ feature @ ''-'' @ axis)
                              bandFeatures features))))))"

declare frequency_axis.simps [simp del]

definition frequency_signal :: "signals \<Rightarrow> string \<Rightarrow> features \<Rightarrow> error + features" where
  "frequency_signal processedSignals signalType features =
     ebind (signal_of processedSignals signalType) (\<lambda>sig.
       ebind (efold (frequency_axis sig signalType) [''x'', ''y'', ''z''] (Num 0, features))
             (\<lambda>(sma, features). Inr features))"

text \<open>The body of the fourth \<^verbatim>\<open>forEach\<close>: one frequency-domain magnitude signal.\<close>

definition frequency_magnitude_signal :: "signals \<Rightarrow> string \<Rightarrow> features \<Rightarrow> error + features" where
  "frequency_magnitude_signal processedSignals signalType features =
     ebind (signal_of processedSignals signalType) (\<lambda>sig.
       ebind (case sig ''mag'' of
                None \<Rightarrow> Inr (Num 0, features)
              | Some axisData \<Rightarrow>
                  ebind (calculateFrequencyFeatures axisData) (\<lambda>timeFeatures.
                    Inr (jadd (Num 0) (sum_abs axisData),
                         put_entries (\<lambda>feature. signalType @ ''-'' @ feature) timeFeatures features)))
             (\<lambda>(sma, features).
                ebind (series_of sig ''mag'') (\<lambda>mag.
                  Inr (put (signalType @ ''-sma()'') (jdiv sma (len mag)) features))))"

definition extractFeatures :: "signals \<Rightarrow> error + features" where
  "extractFeatures processedSignals =
     ebind (efold (time_signal processedSignals)
              [''tBodyAcc'', ''tGravityAcc'', ''tBodyAccJerk'', ''tBodyGyro'', ''tBodyGyroJerk''] [])
       (\<lambda>features.
     ebind (efold (time_magnitude_signal processedSignals)
              [''tBodyAccMag'', ''tGravityAccMag'', ''tBodyAccJerkMag'', ''tBodyGyroMag'',
               ''tBodyGyroJerkMag''] features)
       (\<lambda>features.
     ebind (efold (frequency_signal processedSignals)
              [''fBodyAcc'', ''fBodyAccJerk'', ''fBodyGyro''] features)
       (\<lambda>features.
     efold (frequency_magnitude_signal processedSignals)
       [''fBodyAccMag'', ''fBodyBodyAccJerkMag'', ''fBodyBodyGyroMag'', ''fBodyBodyGyroJerkMag'']
       features)))"

subsection \<open>Angle features\<close>

definition calculateAngle :: "jsnum list \<Rightarrow> jsnum list \<Rightarrow> jsnum" where
  "calculateAngle vector1 vector2 =
     (let dotProduct = reduce_i (\<lambda>sum val i. jadd sum (jmul val (aget vector2 i))) (Num 0) vector1;
          magnitude1 = jsqrt (reduce (\<lambda>sum val. jadd sum (jpow val 2)) (Num 0) vector1);
          magnitude2 = jsqrt (reduce (\<lambda>sum val. jadd sum (jpow val 2)) (Num 0) vector2)
      in jacos (jdiv dotProduct (jmul magnitude1 magnitude2)))"

definition series_mean :: "jsnum list \<Rightarrow> jsnum" where
  "series_mean xs = jdiv (reduce jadd (Num 0) xs) (len xs)"

text \<open>
  The vector \<^verbatim>\<open>gravity\<close> holds the first sample of each gravity axis. The third entry of
  \<^verbatim>\<open>gravityMean\<close> divides the sum of the z series by the length of the y series.
\<close>

definition extractAngleFeatures :: "signals \<Rightarrow> error + features" where
  "extractAngleFeatures processedSignals =
     ebind (signal_of processedSignals ''tGravityAcc'') (\<lambda>g.
     ebind (series_of g ''x'') (\<lambda>gx.
     ebind (series_of g ''y'') (\<lambda>gy.
     ebind (series_of g ''z'') (\<lambda>gz.
     let gravity = [aget gx 0, aget gy 0, aget gz 0];
         gravityMean = [jdiv (reduce jadd (Num 0) gx) (len gx),
                        jdiv (reduce jadd (Num 0) gy) (len gy),
                        jdiv (reduce jadd (Num 0) gz) (len gy)]
     in
     ebind (signal_of processedSignals ''tBodyAcc'') (\<lambda>a.
     ebind (series_of a ''x'') (\<lambda>ax.
     ebind (series_of a ''y'') (\<lambda>ay.
     ebind (series_of a ''z'') (\<lambda>az.
     let tBodyAccMean = [series_mean ax, series_mean ay, series_mean az] in
     ebind (signal_of processedSignals ''tBodyAccJerk'') (\<lambda>aj.
     ebind (series_of aj ''x'') (\<lambda>ajx.
     ebind (series_of aj ''y'') (\<lambda>ajy.
     ebind (series_of aj ''z'') (\<lambda>ajz.
     let tBodyAccJerkMean = [series_mean ajx, series_mean ajy, series_mean ajz] in
     ebind (signal_of processedSignals ''tBodyGyro'') (\<lambda>w.
     ebind (series_of w ''x'') (\<lambda>wx.
     ebind (series_of w ''y'') (\<lambda>wy.
     ebind (series_of w ''z'') (\<lambda>wz.
     let tBodyGyroMean = [series_mean wx, series_mean wy, series_mean wz] in
     ebind (signal_of processedSignals ''tBodyGyroJerk'') (\<lambda>wj.
     ebind (series_of wj ''x'') (\<lambda>wjx.
     ebind (series_of wj ''y'') (\<lambda>wjy.
     ebind (series_of wj ''z'') (\<lambda>wjz.
     let tBodyGyroJerkMean = [series_mean wjx, series_mean wjy, series_mean wjz];
         features = [];
         features = put ''angle(tBodyAccMean,gravity)'' (calculateAngle tBodyAccMean gravity) features;
         features = put ''angle(tBodyAccJerkMean,gravityMean)''
                      (calculateAngle tBodyAccJerkMean gravityMean) features;
         features = put ''angle(tBodyGyroMean,gravityMean)''
                      (calculateAngle tBodyGyroMean gravityMean) features;
         features = put ''angle(tBodyGyroJerkMean,gravityMean)''
                      (calculateAngle tBodyGyroJerkMean gravityMean) features;
         features = put ''angle(x,gravityMean)'' (calculateAngle [Num 1, Num 0, Num 0] gravityMean) features;
         features = put ''angle(y,gravityMean)'' (calculateAngle [Num 0, Num 1, Num 0] gravityMean) features;
         features = put ''angle(z,gravityMean)'' (calculateAngle [Num 0, Num 0, Num 1] gravityMean) features
     in Inr features))))))))))))))))))))"

section \<open>The application (app/(tabs)/index.tsx)\<close>

subsection \<open>Normalisation of a batch\<close>

text \<open>
  \<^verbatim>\<open>Object.keys(featureRows[0])\<close> raises \<^verbatim>\<open>TypeError\<close> for an empty batch. A key a row lacks
  reads as \<^verbatim>\<open>undefined\<close>, which \<^verbatim>\<open>Math.min\<close>, \<^verbatim>\<open>Math.max\<close> and the subtraction turn into
  \<^verbatim>\<open>NaN\<close>.
\<close>

definition normalizeFeatures :: "features list \<Rightarrow> error + features list" where
  "normalizeFeatures featureRows =
     (case featureRows of
        [] \<Rightarrow> Inl TypeError
      | row0 # _ \<Rightarrow>
          (let normalizedRows = featureRows;
               featureKeys = map fst row0;
               minMax = foldl (\<lambda>acc key.
                                 (let vals = map (\<lambda>row. getf row key) featureRows
                                  in AList.update key (Math_min vals, Math_max vals) acc))
                              [] featureKeys
           in Inr (map (\<lambda>row.
                          foldl (\<lambda>normalizedRow key.
                                   (case map_of minMax key of
                                      None \<Rightarrow> normalizedRow
                                    | Some (mn, mx) \<Rightarrow>
                                        if strict_eq mx mn then put key (Num 0) normalizedRow
                                        else put key
                                               (jadd (Num (- 1))
                                                  (jdiv (jmul (Num 2) (jsub (getf row key) mn)) (jsub mx mn)))
                                               normalizedRow))
                                row featureKeys)
                       normalizedRows)))"

subsection \<open>The canonical feature list\<close>

definition feature_list :: "string list" where
  "feature_list =
    [''tBodyAcc-mean()-x'', ''tBodyAcc-mean()-y'', ''tBodyAcc-mean()-z'', ''tBodyAcc-std()-x'',
     ''tBodyAcc-std()-y'', ''tBodyAcc-std()-z'', ''tBodyAcc-mad()-x'', ''tBodyAcc-mad()-y'',
     ''tBodyAcc-mad()-z'', ''tBodyAcc-max()-x'', ''tBodyAcc-max()-y'', ''tBodyAcc-max()-z'',
     ''tBodyAcc-min()-x'', ''tBodyAcc-min()-y'', ''tBodyAcc-min()-z'', ''tBodyAcc-sma()'',
     ''tBodyAcc-energy()-x'', ''tBodyAcc-energy()-y'', ''tBodyAcc-energy()-z'',
     ''tBodyAcc-iqr()-x'', ''tBodyAcc-iqr()-y'', ''tBodyAcc-iqr()-z'', ''tBodyAcc-entropy()-x'',
     ''tBodyAcc-entropy()-y'', ''tBodyAcc-entropy()-z'', ''tBodyAcc-arCoeff()1-x'',
     ''tBodyAcc-arCoeff()2-x'', ''tBodyAcc-arCoeff()3-x'', ''tBodyAcc-arCoeff()4-x'',
     ''tBodyAcc-arCoeff()1-y'', ''tBodyAcc-arCoeff()2-y'', ''tBodyAcc-arCoeff()3-y'',
     ''tBodyAcc-arCoeff()4-y'', ''tBodyAcc-arCoeff()1-z'', ''tBodyAcc-arCoeff()2-z'',
     ''tBodyAcc-arCoeff()3-z'', ''tBodyAcc-arCoeff()4-z'', ''tBodyAcc-correlation()-x,y'',
     ''tBodyAcc-correlation()-x,z'', ''tBodyAcc-correlation()-y,z'', ''tGravityAcc-mean()-x'',
     ''tGravityAcc-mean()-y'', ''tGravityAcc-mean()-z'', ''tGravityAcc-std()-x'',
     ''tGravityAcc-std()-y'', ''tGravityAcc-std()-z'', ''tGravityAcc-mad()-x'',
     ''tGravityAcc-mad()-y'', ''tGravityAcc-mad()-z'', ''tGravityAcc-max()-x'',
     ''tGravityAcc-max()-y'', ''tGravityAcc-max()-z'', ''tGravityAcc-min()-x'',
     ''tGravityAcc-min()-y'', ''tGravityAcc-min()-z'', ''tGravityAcc-sma()'',
     ''tGravityAcc-energy()-x'', ''tGravityAcc-energy()-y'', ''tGravityAcc-energy()-z'',
     ''tGravityAcc-iqr()-x'', ''tGravityAcc-iqr()-y'', ''tGravityAcc-iqr()-z'',
     ''tGravityAcc-entropy()-x'', ''tGravityAcc-entropy()-y'', ''tGravityAcc-entropy()-z'',
     ''tGravityAcc-arCoeff()1-x'', ''tGravityAcc-arCoeff()2-x'', ''tGravityAcc-arCoeff()3-x'',
     ''tGravityAcc-arCoeff()4-x'', ''tGravityAcc-arCoeff()1-y'', ''tGravityAcc-arCoeff()2-y'',
     ''tGravityAcc-arCoeff()3-y'', ''tGravityAcc-arCoeff()4-y'', ''tGravityAcc-arCoeff()1-z'',
     ''tGravityAcc-arCoeff()2-z'', ''tGravityAcc-arCoeff()3-z'', ''tGravityAcc-arCoeff()4-z'',
     ''tGravityAcc-correlation()-x,y'', ''tGravityAcc-correlation()-x,z'',
     ''tGravityAcc-correlation()-y,z'', ''tBodyAccJerk-mean()-x'', ''tBodyAccJerk-mean()-y'',
     ''tBodyAccJerk-mean()-z'', ''tBodyAccJerk-std()-x'', ''tBodyAccJerk-std()-y'',
     ''tBodyAccJerk-std()-z'', ''tBodyAccJerk-mad()-x'', ''tBodyAccJerk-mad()-y'',
     ''tBodyAccJerk-mad()-z'', ''tBodyAccJerk-max()-x'', ''tBodyAccJerk-max()-y'',
     ''tBodyAccJerk-max()-z'', ''tBodyAccJerk-min()-x'', ''tBodyAccJerk-min()-y'',
     ''tBodyAccJerk-min()-z'', ''tBodyAccJerk-sma()'', ''tBodyAccJerk-energy()-x'',
     ''tBodyAccJerk-energy()-y'', ''tBodyAccJerk-energy()-z'', ''tBodyAccJerk-iqr()-x'',
     ''tBodyAccJerk-iqr()-y'', ''tBodyAccJerk-iqr()-z'', ''tBodyAccJerk-entropy()-x'',
     ''tBodyAccJerk-entropy()-y'', ''tBodyAccJerk-entropy()-z'', ''tBodyAccJerk-arCoeff()1-x'',
     ''tBodyAccJerk-arCoeff()2-x'', ''tBodyAccJerk-arCoeff()3-x'', ''tBodyAccJerk-arCoeff()4-x'',
     ''tBodyAccJerk-arCoeff()1-y'', ''tBodyAccJerk-arCoeff()2-y'', ''tBodyAccJerk-arCoeff()3-y'',
     ''tBodyAccJerk-arCoeff()4-y'', ''tBodyAccJerk-arCoeff()1-z'', ''tBodyAccJerk-arCoeff()2-z'',
     ''tBodyAccJerk-arCoeff()3-z'', ''tBodyAccJerk-arCoeff()4-z'',
     ''tBodyAccJerk-correlation()-x,y'', ''tBodyAccJerk-correlation()-x,z'',
     ''tBodyAccJerk-correlation()-y,z'', ''tBodyGyro-mean()-x'', ''tBodyGyro-mean()-y'',
     ''tBodyGyro-mean()-z'', ''tBodyGyro-std()-x'', ''tBodyGyro-std()-y'', ''tBodyGyro-std()-z'',
     ''tBodyGyro-mad()-x'', ''tBodyGyro-mad()-y'', ''tBodyGyro-mad()-z'', ''tBodyGyro-max()-x'',
     ''tBodyGyro-max()-y'', ''tBodyGyro-max()-z'', ''tBodyGyro-min()-x'', ''tBodyGyro-min()-y'',
     ''tBodyGyro-min()-z'', ''tBodyGyro-sma()'', ''tBodyGyro-energy()-x'',
     ''tBodyGyro-energy()-y'', ''tBodyGyro-energy()-z'', ''tBodyGyro-iqr()-x'',
     ''tBodyGyro-iqr()-y'', ''tBodyGyro-iqr()-z'', ''tBodyGyro-entropy()-x'',
     ''tBodyGyro-entropy()-y'', ''tBodyGyro-entropy()-z'', ''tBodyGyro-arCoeff()1-x'',
     ''tBodyGyro-arCoeff()2-x'', ''tBodyGyro-arCoeff()3-x'', ''tBodyGyro-arCoeff()4-x'',
     ''tBodyGyro-arCoeff()1-y'', ''tBodyGyro-arCoeff()2-y'', ''tBodyGyro-arCoeff()3-y'',
     ''tBodyGyro-arCoeff()4-y'', ''tBodyGyro-arCoeff()1-z'', ''tBodyGyro-arCoeff()2-z'',
     ''tBodyGyro-arCoeff()3-z'', ''tBodyGyro-arCoeff()4-z'', ''tBodyGyro-correlation()-x,y'',
     ''tBodyGyro-correlation()-x,z'', ''tBodyGyro-correlation()-y,z'',
     ''tBodyGyroJerk-mean()-x'', ''tBodyGyroJerk-mean()-y'', ''tBodyGyroJerk-mean()-z'',
     ''tBodyGyroJerk-std()-x'', ''tBodyGyroJerk-std()-y'', ''tBodyGyroJerk-std()-z'',
     ''tBodyGyroJerk-mad()-x'', ''tBodyGyroJerk-mad()-y'', ''tBodyGyroJerk-mad()-z'',
     ''tBodyGyroJerk-max()-x'', ''tBodyGyroJerk-max()-y'', ''tBodyGyroJerk-max()-z'',
     ''tBodyGyroJerk-min()-x'', ''tBodyGyroJerk-min()-y'', ''tBodyGyroJerk-min()-z'',
     ''tBodyGyroJerk-sma()'', ''tBodyGyroJerk-energy()-x'', ''tBodyGyroJerk-energy()-y'',
     ''tBodyGyroJerk-energy()-z'', ''tBodyGyroJerk-iqr()-x'', ''tBodyGyroJerk-iqr()-y'',
     ''tBodyGyroJerk-iqr()-z'', ''tBodyGyroJerk-entropy()-x'', ''tBodyGyroJerk-entropy()-y'',
     ''tBodyGyroJerk-entropy()-z'', ''tBodyGyroJerk-arCoeff()1-x'',
     ''tBodyGyroJerk-arCoeff()2-x'', ''tBodyGyroJerk-arCoeff()3-x'',
     ''tBodyGyroJerk-arCoeff()4-x'', ''tBodyGyroJerk-arCoeff()1-y'',
     ''tBodyGyroJerk-arCoeff()2-y'', ''tBodyGyroJerk-arCoeff()3-y'',
     ''tBodyGyroJerk-arCoeff()4-y'', ''tBodyGyroJerk-arCoeff()1-z'',
     ''tBodyGyroJerk-arCoeff()2-z'', ''tBodyGyroJerk-arCoeff()3-z'',
     ''tBodyGyroJerk-arCoeff()4-z'', ''tBodyGyroJerk-correlation()-x,y'',
     ''tBodyGyroJerk-correlation()-x,z'', ''tBodyGyroJerk-correlation()-y,z'',
     ''tBodyAccMag-mean()'', ''tBodyAccMag-std()'', ''tBodyAccMag-mad()'', ''tBodyAccMag-max()'',
     ''tBodyAccMag-min()'', ''tBodyAccMag-sma()'', ''tBodyAccMag-energy()'',
     ''tBodyAccMag-iqr()'', ''tBodyAccMag-entropy()'', ''tBodyAccMag-arCoeff()1'',
     ''tBodyAccMag-arCoeff()2'', ''tBodyAccMag-arCoeff()3'', ''tBodyAccMag-arCoeff()4'',
     ''tGravityAccMag-mean()'', ''tGravityAccMag-std()'', ''tGravityAccMag-mad()'',
     ''tGravityAccMag-max()'', ''tGravityAccMag-min()'', ''tGravityAccMag-sma()'',
     ''tGravityAccMag-energy()'', ''tGravityAccMag-iqr()'', ''tGravityAccMag-entropy()'',
     ''tGravityAccMag-arCoeff()1'', ''tGravityAccMag-arCoeff()2'', ''tGravityAccMag-arCoeff()3'',
     ''tGravityAccMag-arCoeff()4'', ''tBodyAccJerkMag-mean()'', ''tBodyAccJerkMag-std()'',
     ''tBodyAccJerkMag-mad()'', ''tBodyAccJerkMag-max()'', ''tBodyAccJerkMag-min()'',
     ''tBodyAccJerkMag-sma()'', ''tBodyAccJerkMag-energy()'', ''tBodyAccJerkMag-iqr()'',
     ''tBodyAccJerkMag-entropy()'', ''tBodyAccJerkMag-arCoeff()1'',
     ''tBodyAccJerkMag-arCoeff()2'', ''tBodyAccJerkMag-arCoeff()3'',
     ''tBodyAccJerkMag-arCoeff()4'', ''tBodyGyroMag-mean()'', ''tBodyGyroMag-std()'',
     ''tBodyGyroMag-mad()'', ''tBodyGyroMag-max()'', ''tBodyGyroMag-min()'',
     ''tBodyGyroMag-sma()'', ''tBodyGyroMag-energy()'', ''tBodyGyroMag-iqr()'',
     ''tBodyGyroMag-entropy()'', ''tBodyGyroMag-arCoeff()1'', ''tBodyGyroMag-arCoeff()2'',
     ''tBodyGyroMag-arCoeff()3'', ''tBodyGyroMag-arCoeff()4'', ''tBodyGyroJerkMag-mean()'',
     ''tBodyGyroJerkMag-std()'', ''tBodyGyroJerkMag-mad()'', ''tBodyGyroJerkMag-max()'',
     ''tBodyGyroJerkMag-min()'', ''tBodyGyroJerkMag-sma()'', ''tBodyGyroJerkMag-energy()'',
     ''tBodyGyroJerkMag-iqr()'', ''tBodyGyroJerkMag-entropy()'', ''tBodyGyroJerkMag-arCoeff()1'',
     ''tBodyGyroJerkMag-arCoeff()2'', ''tBodyGyroJerkMag-arCoeff()3'',
     ''tBodyGyroJerkMag-arCoeff()4'', ''fBodyAcc-mean()-x'', ''fBodyAcc-mean()-y'',
     ''fBodyAcc-mean()-z'', ''fBodyAcc-std()-x'', ''fBodyAcc-std()-y'', ''fBodyAcc-std()-z'',
     ''fBodyAcc-mad()-x'', ''fBodyAcc-mad()-y'', ''fBodyAcc-mad()-z'', ''fBodyAcc-max()-x'',
     ''fBodyAcc-max()-y'', ''fBodyAcc-max()-z'', ''fBodyAcc-min()-x'', ''fBodyAcc-min()-y'',
     ''fBodyAcc-min()-z'', ''fBodyAcc-sma()'', ''fBodyAcc-energy()-x'', ''fBodyAcc-energy()-y'',
     ''fBodyAcc-energy()-z'', ''fBodyAcc-iqr()-x'', ''fBodyAcc-iqr()-y'', ''fBodyAcc-iqr()-z'',
     ''fBodyAcc-entropy()-x'', ''fBodyAcc-entropy()-y'', ''fBodyAcc-entropy()-z'',
     ''fBodyAcc-maxInds-x'', ''fBodyAcc-maxInds-y'', ''fBodyAcc-maxInds-z'',
     ''fBodyAcc-meanFreq()-x'', ''fBodyAcc-meanFreq()-y'', ''fBodyAcc-meanFreq()-z'',
     ''fBodyAcc-skewness()-x'', ''fBodyAcc-kurtosis()-x'', ''fBodyAcc-skewness()-y'',
     ''fBodyAcc-kurtosis()-y'', ''fBodyAcc-skewness()-z'', ''fBodyAcc-kurtosis()-z'',
     ''fBodyAcc-bandsEnergy()-1,8-x'', ''fBodyAcc-bandsEnergy()-9,16-x'',
     ''fBodyAcc-bandsEnergy()-17,24-x'', ''fBodyAcc-bandsEnergy()-25,32-x'',
     ''fBodyAcc-bandsEnergy()-33,40-x'', ''fBodyAcc-bandsEnergy()-41,48-x'',
     ''fBodyAcc-bandsEnergy()-49,56-x'', ''fBodyAcc-bandsEnergy()-57,64-x'',
     ''fBodyAcc-bandsEnergy()-1,16-x'', ''fBodyAcc-bandsEnergy()-17,32-x'',
     ''fBodyAcc-bandsEnergy()-33,48-x'', ''fBodyAcc-bandsEnergy()-49,64-x'',
     ''fBodyAcc-bandsEnergy()-1,24-x'', ''fBodyAcc-bandsEnergy()-25,48-x'',
     ''fBodyAcc-bandsEnergy()-1,8-y'', ''fBodyAcc-bandsEnergy()-9,16-y'',
     ''fBodyAcc-bandsEnergy()-17,24-y'', ''fBodyAcc-bandsEnergy()-25,32-y'',
     ''fBodyAcc-bandsEnergy()-33,40-y'', ''fBodyAcc-bandsEnergy()-41,48-y'',
     ''fBodyAcc-bandsEnergy()-49,56-y'', ''fBodyAcc-bandsEnergy()-57,64-y'',
     ''fBodyAcc-bandsEnergy()-1,16-y'', ''fBodyAcc-bandsEnergy()-17,32-y'',
     ''fBodyAcc-bandsEnergy()-33,48-y'', ''fBodyAcc-bandsEnergy()-49,64-y'',
     ''fBodyAcc-bandsEnergy()-1,24-y'', ''fBodyAcc-bandsEnergy()-25,48-y'',
     ''fBodyAcc-bandsEnergy()-1,8-z'', ''fBodyAcc-bandsEnergy()-9,16-z'',
     ''fBodyAcc-bandsEnergy()-17,24-z'', ''fBodyAcc-bandsEnergy()-25,32-z'',
     ''fBodyAcc-bandsEnergy()-33,40-z'', ''fBodyAcc-bandsEnergy()-41,48-z'',
     ''fBodyAcc-bandsEnergy()-49,56-z'', ''fBodyAcc-bandsEnergy()-57,64-z'',
     ''fBodyAcc-bandsEnergy()-1,16-z'', ''fBodyAcc-bandsEnergy()-17,32-z'',
     ''fBodyAcc-bandsEnergy()-33,48-z'', ''fBodyAcc-bandsEnergy()-49,64-z'',
     ''fBodyAcc-bandsEnergy()-1,24-z'', ''fBodyAcc-bandsEnergy()-25,48-z'',
     ''fBodyAccJerk-mean()-x'', ''fBodyAccJerk-mean()-y'', ''fBodyAccJerk-mean()-z'',
     ''fBodyAccJerk-std()-x'', ''fBodyAccJerk-std()-y'', ''fBodyAccJerk-std()-z'',
     ''fBodyAccJerk-mad()-x'', ''fBodyAccJerk-mad()-y'', ''fBodyAccJerk-mad()-z'',
     ''fBodyAccJerk-max()-x'', ''fBodyAccJerk-max()-y'', ''fBodyAccJerk-max()-z'',
     ''fBodyAccJerk-min()-x'', ''fBodyAccJerk-min()-y'', ''fBodyAccJerk-min()-z'',
     ''fBodyAccJerk-sma()'', ''fBodyAccJerk-energy()-x'', ''fBodyAccJerk-energy()-y'',
     ''fBodyAccJerk-energy()-z'', ''fBodyAccJerk-iqr()-x'', ''fBodyAccJerk-iqr()-y'',
     ''fBodyAccJerk-iqr()-z'', ''fBodyAccJerk-entropy()-x'', ''fBodyAccJerk-entropy()-y'',
     ''fBodyAccJerk-entropy()-z'', ''fBodyAccJerk-maxInds-x'', ''fBodyAccJerk-maxInds-y'',
     ''fBodyAccJerk-maxInds-z'', ''fBodyAccJerk-meanFreq()-x'', ''fBodyAccJerk-meanFreq()-y'',
     ''fBodyAccJerk-meanFreq()-z'', ''fBodyAccJerk-skewness()-x'', ''fBodyAccJerk-kurtosis()-x'',
     ''fBodyAccJerk-skewness()-y'', ''fBodyAccJerk-kurtosis()-y'', ''fBodyAccJerk-skewness()-z'',
     ''fBodyAccJerk-kurtosis()-z'', ''fBodyAccJerk-bandsEnergy()-1,8-x'',
     ''fBodyAccJerk-bandsEnergy()-9,16-x'', ''fBodyAccJerk-bandsEnergy()-17,24-x'',
     ''fBodyAccJerk-bandsEnergy()-25,32-x'', ''fBodyAccJerk-bandsEnergy()-33,40-x'',
     ''fBodyAccJerk-bandsEnergy()-41,48-x'', ''fBodyAccJerk-bandsEnergy()-49,56-x'',
     ''fBodyAccJerk-bandsEnergy()-57,64-x'', ''fBodyAccJerk-bandsEnergy()-1,16-x'',
     ''fBodyAccJerk-bandsEnergy()-17,32-x'', ''fBodyAccJerk-bandsEnergy()-33,48-x'',
     ''fBodyAccJerk-bandsEnergy()-49,64-x'', ''fBodyAccJerk-bandsEnergy()-1,24-x'',
     ''fBodyAccJerk-bandsEnergy()-25,48-x'', ''fBodyAccJerk-bandsEnergy()-1,8-y'',
     ''fBodyAccJerk-bandsEnergy()-9,16-y'', ''fBodyAccJerk-bandsEnergy()-17,24-y'',
     ''fBodyAccJerk-bandsEnergy()-25,32-y'', ''fBodyAccJerk-bandsEnergy()-33,40-y'',
     ''fBodyAccJerk-bandsEnergy()-41,48-y'', ''fBodyAccJerk-bandsEnergy()-49,56-y'',
     ''fBodyAccJerk-bandsEnergy()-57,64-y'', ''fBodyAccJerk-bandsEnergy()-1,16-y'',
     ''fBodyAccJerk-bandsEnergy()-17,32-y'', ''fBodyAccJerk-bandsEnergy()-33,48-y'',
     ''fBodyAccJerk-bandsEnergy()-49,64-y'', ''fBodyAccJerk-bandsEnergy()-1,24-y'',
     ''fBodyAccJerk-bandsEnergy()-25,48-y'', ''fBodyAccJerk-bandsEnergy()-1,8-z'',
     ''fBodyAccJerk-bandsEnergy()-9,16-z'', ''fBodyAccJerk-bandsEnergy()-17,24-z'',
     ''fBodyAccJerk-bandsEnergy()-25,32-z'', ''fBodyAccJerk-bandsEnergy()-33,40-z'',
     ''fBodyAccJerk-bandsEnergy()-41,48-z'', ''fBodyAccJerk-bandsEnergy()-49,56-z'',
     ''fBodyAccJerk-bandsEnergy()-57,64-z'', ''fBodyAccJerk-bandsEnergy()-1,16-z'',
     ''fBodyAccJerk-bandsEnergy()-17,32-z'', ''fBodyAccJerk-bandsEnergy()-33,48-z'',
     ''fBodyAccJerk-bandsEnergy()-49,64-z'', ''fBodyAccJerk-bandsEnergy()-1,24-z'',
     ''fBodyAccJerk-bandsEnergy()-25,48-z'', ''fBodyGyro-mean()-x'', ''fBodyGyro-mean()-y'',
     ''fBodyGyro-mean()-z'', ''fBodyGyro-std()-x'', ''fBodyGyro-std()-y'', ''fBodyGyro-std()-z'',
     ''fBodyGyro-mad()-x'', ''fBodyGyro-mad()-y'', ''fBodyGyro-mad()-z'', ''fBodyGyro-max()-x'',
     ''fBodyGyro-max()-y'', ''fBodyGyro-max()-z'', ''fBodyGyro-min()-x'', ''fBodyGyro-min()-y'',
     ''fBodyGyro-min()-z'', ''fBodyGyro-sma()'', ''fBodyGyro-energy()-x'',
     ''fBodyGyro-energy()-y'', ''fBodyGyro-energy()-z'', ''fBodyGyro-iqr()-x'',
     ''fBodyGyro-iqr()-y'', ''fBodyGyro-iqr()-z'', ''fBodyGyro-entropy()-x'',
     ''fBodyGyro-entropy()-y'', ''fBodyGyro-entropy()-z'', ''fBodyGyro-maxInds-x'',
     ''fBodyGyro-maxInds-y'', ''fBodyGyro-maxInds-z'', ''fBodyGyro-meanFreq()-x'',
     ''fBodyGyro-meanFreq()-y'', ''fBodyGyro-meanFreq()-z'', ''fBodyGyro-skewness()-x'',
     ''fBodyGyro-kurtosis()-x'', ''fBodyGyro-skewness()-y'', ''fBodyGyro-kurtosis()-y'',
     ''fBodyGyro-skewness()-z'', ''fBodyGyro-kurtosis()-z'', ''fBodyGyro-bandsEnergy()-1,8-x'',
     ''fBodyGyro-bandsEnergy()-9,16-x'', ''fBodyGyro-bandsEnergy()-17,24-x'',
     ''fBodyGyro-bandsEnergy()-25,32-x'', ''fBodyGyro-bandsEnergy()-33,40-x'',
     ''fBodyGyro-bandsEnergy()-41,48-x'', ''fBodyGyro-bandsEnergy()-49,56-x'',
     ''fBodyGyro-bandsEnergy()-57,64-x'', ''fBodyGyro-bandsEnergy()-1,16-x'',
     ''fBodyGyro-bandsEnergy()-17,32-x'', ''fBodyGyro-bandsEnergy()-33,48-x'',
     ''fBodyGyro-bandsEnergy()-49,64-x'', ''fBodyGyro-bandsEnergy()-1,24-x'',
     ''fBodyGyro-bandsEnergy()-25,48-x'', ''fBodyGyro-bandsEnergy()-1,8-y'',
     ''fBodyGyro-bandsEnergy()-9,16-y'', ''fBodyGyro-bandsEnergy()-17,24-y'',
     ''fBodyGyro-bandsEnergy()-25,32-y'', ''fBodyGyro-bandsEnergy()-33,40-y'',
     ''fBodyGyro-bandsEnergy()-41,48-y'', ''fBodyGyro-bandsEnergy()-49,56-y'',
     ''fBodyGyro-bandsEnergy()-57,64-y'', ''fBodyGyro-bandsEnergy()-1,16-y'',
     ''fBodyGyro-bandsEnergy()-17,32-y'', ''fBodyGyro-bandsEnergy()-33,48-y'',
     ''fBodyGyro-bandsEnergy()-49,64-y'', ''fBodyGyro-bandsEnergy()-1,24-y'',
     ''fBodyGyro-bandsEnergy()-25,48-y'', ''fBodyGyro-bandsEnergy()-1,8-z'',
     ''fBodyGyro-bandsEnergy()-9,16-z'', ''fBodyGyro-bandsEnergy()-17,24-z'',
     ''fBodyGyro-bandsEnergy()-25,32-z'', ''fBodyGyro-bandsEnergy()-33,40-z'',
     ''fBodyGyro-bandsEnergy()-41,48-z'', ''fBodyGyro-bandsEnergy()-49,56-z'',
     ''fBodyGyro-bandsEnergy()-57,64-z'', ''fBodyGyro-bandsEnergy()-1,16-z'',
     ''fBodyGyro-bandsEnergy()-17,32-z'', ''fBodyGyro-bandsEnergy()-33,48-z'',
     ''fBodyGyro-bandsEnergy()-49,64-z'', ''fBodyGyro-bandsEnergy()-1,24-z'',
     ''fBodyGyro-bandsEnergy()-25,48-z'', ''fBodyAccMag-mean()'', ''fBodyAccMag-std()'',
     ''fBodyAccMag-mad()'', ''fBodyAccMag-max()'', ''fBodyAccMag-min()'', ''fBodyAccMag-sma()'',
     ''fBodyAccMag-energy()'', ''fBodyAccMag-iqr()'', ''fBodyAccMag-entropy()'',
     ''fBodyAccMag-maxInds'', ''fBodyAccMag-meanFreq()'', ''fBodyAccMag-skewness()'',
     ''fBodyAccMag-kurtosis()'', ''fBodyBodyAccJerkMag-mean()'', ''fBodyBodyAccJerkMag-std()'',
     ''fBodyBodyAccJerkMag-mad()'', ''fBodyBodyAccJerkMag-max()'', ''fBodyBodyAccJerkMag-min()'',
     ''fBodyBodyAccJerkMag-sma()'', ''fBodyBodyAccJerkMag-energy()'',
     ''fBodyBodyAccJerkMag-iqr()'', ''fBodyBodyAccJerkMag-entropy()'',
     ''fBodyBodyAccJerkMag-maxInds'', ''fBodyBodyAccJerkMag-meanFreq()'',
     ''fBodyBodyAccJerkMag-skewness()'', ''fBodyBodyAccJerkMag-kurtosis()'',
     ''fBodyBodyGyroMag-mean()'', ''fBodyBodyGyroMag-std()'', ''fBodyBodyGyroMag-mad()'',
     ''fBodyBodyGyroMag-max()'', ''fBodyBodyGyroMag-min()'', ''fBodyBodyGyroMag-sma()'',
     ''fBodyBodyGyroMag-energy()'', ''fBodyBodyGyroMag-iqr()'', ''fBodyBodyGyroMag-entropy()'',
     ''fBodyBodyGyroMag-maxInds'', ''fBodyBodyGyroMag-meanFreq()'',
     ''fBodyBodyGyroMag-skewness()'', ''fBodyBodyGyroMag-kurtosis()'',
     ''fBodyBodyGyroJerkMag-mean()'', ''fBodyBodyGyroJerkMag-std()'',
     ''fBodyBodyGyroJerkMag-mad()'', ''fBodyBodyGyroJerkMag-max()'',
     ''fBodyBodyGyroJerkMag-min()'', ''fBodyBodyGyroJerkMag-sma()'',
     ''fBodyBodyGyroJerkMag-energy()'', ''fBodyBodyGyroJerkMag-iqr()'',
     ''fBodyBodyGyroJerkMag-entropy()'', ''fBodyBodyGyroJerkMag-maxInds'',
     ''fBodyBodyGyroJerkMag-meanFreq()'', ''fBodyBodyGyroJerkMag-skewness()'',
     ''fBodyBodyGyroJerkMag-kurtosis()'', ''angle(tBodyAccMean,gravity)'',
     ''angle(tBodyAccJerkMean,gravityMean)'', ''angle(tBodyGyroMean,gravityMean)'',
     ''angle(tBodyGyroJerkMean,gravityMean)'', ''angle(x,gravityMean)'',
     ''angle(y,gravityMean)'', ''angle(z,gravityMean)'']"

subsection \<open>One window of both sensors\<close>

definition combinedProcessedSignals :: "ProcessedSignals \<Rightarrow> ProcessedSignals \<Rightarrow> signals" where
  "combinedProcessedSignals accProcessedSignals gyroProcessedSignals =
     map_of
       [(''tBodyAcc'', map_of [(''x'', axis_x (time_body (time accProcessedSignals))),
                               (''y'', axis_y (time_body (time accProcessedSignals))),
                               (''z'', axis_z (time_body (time accProcessedSignals)))]),
        (''tGravityAcc'', map_of [(''x'', axis_x (time_gravity (time accProcessedSignals))),
                                  (''y'', axis_y (time_gravity (time accProcessedSignals))),
                                  (''z'', axis_z (time_gravity (time accProcessedSignals)))]),
        (''tBodyAccJerk'', map_of [(''x'', axis_x (time_bodyJerk (time accProcessedSignals))),
                                   (''y'', axis_y (time_bodyJerk (time accProcessedSignals))),
                                   (''z'', axis_z (time_bodyJerk (time accProcessedSignals)))]),
        (''tBodyGyro'', map_of [(''x'', axis_x (time_body (time gyroProcessedSignals))),
                                (''y'', axis_y (time_body (time gyroProcessedSignals))),
                                (''z'', axis_z (time_body (time gyroProcessedSignals)))]),
        (''tBodyGyroJerk'', map_of [(''x'', axis_x (time_bodyJerk (time gyroProcessedSignals))),
                                    (''y'', axis_y (time_bodyJerk (time gyroProcessedSignals))),
                                    (''z'', axis_z (time_bodyJerk (time gyroProcessedSignals)))]),
        (''tBodyAccMag'', map_of [(''mag'', magnitude (time_body (time accProcessedSignals)))]),
        (''tGravityAccMag'', map_of [(''mag'', magnitude (time_gravity (time accProcessedSignals)))]),
        (''tBodyAccJerkMag'', map_of [(''mag'', magnitude (time_bodyJerk (time accProcessedSignals)))]),
        (''tBodyGyroMag'', map_of [(''mag'', magnitude (time_body (time gyroProcessedSignals)))]),
        (''tBodyGyroJerkMag'', map_of [(''mag'', magnitude (time_bodyJerk (time gyroProcessedSignals)))]),
        (''fBodyAcc'', map_of [(''x'', axis_x (frequency_body (frequency accProcessedSignals))),
                               (''y'', axis_y (frequency_body (frequency accProcessedSignals))),
                               (''z'', axis_z (frequency_body (frequency accProcessedSignals)))]),
        (''fBodyAccJerk'', map_of [(''x'', axis_x (frequency_bodyJerk (frequency accProcessedSignals))),
                                   (''y'', axis_y (frequency_bodyJerk (frequency accProcessedSignals))),
                                   (''z'', axis_z (frequency_bodyJerk (frequency accProcessedSignals)))]),
        (''fBodyGyro'', map_of [(''x'', axis_x (frequency_body (frequency gyroProcessedSignals))),
                                (''y'', axis_y (frequency_body (frequency gyroProcessedSignals))),
                                (''z'', axis_z (frequency_body (frequency gyroProcessedSignals)))]),
        (''fBodyAccMag'', map_of [(''mag'', magnitude (frequency_body (frequency accProcessedSignals)))]),
        (''fBodyBodyAccJerkMag'',
           map_of [(''mag'', magnitude (frequency_bodyJerk (frequency accProcessedSignals)))]),
        (''fBodyBodyGyroMag'', map_of [(''mag'', magnitude (frequency_body (frequency gyroProcessedSignals)))]),
        (''fBodyBodyGyroJerkMag'',
           map_of [(''mag'', magnitude (frequency_bodyJerk (frequency gyroProcessedSignals)))])]"

text \<open>The result \<^verbatim>\<open>{ ...features, ...angleFeatures }\<close> copies the first object and assigns the
  entries of the second.\<close>

definition processSignalWindow :: "SensorReading list \<Rightarrow> SensorReading list \<Rightarrow> error + features" where
  "processSignalWindow accWindow gyroWindow =
     ebind (processSensorData accWindow (Num 20)) (\<lambda>accProcessedSignals.
     ebind (processSensorData gyroWindow (Num 20)) (\<lambda>gyroProcessedSignals.
     let combined = combinedProcessedSignals accProcessedSignals gyroProcessedSignals
     in ebind (extractFeatures combined) (\<lambda>features.
        ebind (extractAngleFeatures combined) (\<lambda>angleFeatures.
        Inr (put_entries (\<lambda>feature. feature) angleFeatures features)))))"

section \<open>Notions used in the statements\<close>

text \<open>A reading with all axes at zero, taken \<open>20\<close> ms after the previous one.\<close>

definition sample_at :: "nat \<Rightarrow> SensorReading" where
  "sample_at i = \<lparr> reading_x = Num 0, reading_y = Num 0, reading_z = Num 0, timestamp = Num (20 * real i) \<rparr>"

text \<open>The number of indices \<open>i = 0, 64, 128, \<dots>\<close> below \<open>n - windowSize\<close>.\<close>

definition window_count :: "nat \<Rightarrow> nat" where
  "window_count n = (n - windowSize + (windowSize div 2 - 1)) div (windowSize div 2)"


definition zero_or_nan :: "jsnum \<Rightarrow> bool" where
  "zero_or_nan s = (s = Num 0 \<or> s = NaN)"

text \<open>
  The series of one axis of one signal (empty when absent), the vector of the means of
  the three axes of a signal, and the vector of their first samples.
\<close>

definition series :: "signals \<Rightarrow> string \<Rightarrow> string \<Rightarrow> jsnum list" where
  "series processedSignals signalType axis =
     (case processedSignals signalType of
        None \<Rightarrow> []
      | Some sig \<Rightarrow> (case sig axis of None \<Rightarrow> [] | Some xs \<Rightarrow> xs))"

definition mean_vector :: "signals \<Rightarrow> string \<Rightarrow> jsnum list" where
  "mean_vector processedSignals signalType =
     [series_mean (series processedSignals signalType ''x''),
      series_mean (series processedSignals signalType ''y''),
      series_mean (series processedSignals signalType ''z'')]"

definition first_sample_vector :: "signals \<Rightarrow> string \<Rightarrow> jsnum list" where
  "first_sample_vector processedSignals signalType =
     [aget (series processedSignals signalType ''x'') 0,
      aget (series processedSignals signalType ''y'') 0,
      aget (series processedSignals signalType ''z'') 0]"


text \<open>The value a result binds to a key, if it is a result and has the key.\<close>

definition feature_of :: "error + features \<Rightarrow> string \<Rightarrow> jsnum option" where
  "feature_of r k = (case r of Inl e \<Rightarrow> None | Inr fs \<Rightarrow> map_of fs k)"

text \<open>Signals whose gravity series starts at \<open>(1, 0, 0)\<close> and has the mean \<open>(-1, 0, 0)\<close>.\<close>

definition unit_x_signal :: "string \<rightharpoonup> jsnum list" where
  "unit_x_signal = map_of [(''x'', [Num 1, Num 1]), (''y'', [Num 0, Num 0]), (''z'', [Num 0, Num 0])]"



definition angle_example :: signals where
  "angle_example =
     map_of [(''tGravityAcc'', map_of [(''x'', [Num 1, Num (- 3)]), (''y'', [Num 0, Num 0]), (''z'', [Num 0, Num 0])]),
             (''tBodyAcc'', unit_x_signal), (''tBodyAccJerk'', unit_x_signal),
             (''tBodyGyro'', unit_x_signal), (''tBodyGyroJerk'', unit_x_signal)]"

text \<open>The record \<^verbatim>\<open>processSensorData\<close> returns, as a function of the three axis results.\<close>

definition signals_of_axes :: "AxisResult \<Rightarrow> AxisResult \<Rightarrow> AxisResult \<Rightarrow> ProcessedSignals" where
  "signals_of_axes xProcessed yProcessed zProcessed =
     \<lparr> time =
         \<lparr> time_body =
             \<lparr> axis_x = bodyComponent xProcessed, axis_y = bodyComponent yProcessed,
               axis_z = bodyComponent zProcessed,
               magnitude = calculateMagnitude (bodyComponent xProcessed) (bodyComponent yProcessed)
                             (bodyComponent zProcessed) \<rparr>,
           time_gravity =
             \<lparr> axis_x = gravityComponent xProcessed, axis_y = gravityComponent yProcessed,
               axis_z = gravityComponent zProcessed,
               magnitude = calculateMagnitude (gravityComponent xProcessed)
                             (gravityComponent yProcessed) (gravityComponent zProcessed) \<rparr>,
           time_bodyJerk =
             \<lparr> axis_x = jerk xProcessed, axis_y = jerk yProcessed, axis_z = jerk zProcessed,
               magnitude = calculateMagnitude (jerk xProcessed) (jerk yProcessed) (jerk zProcessed) \<rparr> \<rparr>,
       frequency =
         \<lparr> frequency_body =
             \<lparr> axis_x = frequencyDomain xProcessed, axis_y = frequencyDomain yProcessed,
               axis_z = frequencyDomain zProcessed,
               magnitude = calculateMagnitude (frequencyDomain xProcessed)
                             (frequencyDomain yProcessed) (frequencyDomain zProcessed) \<rparr>,
           frequency_bodyJerk =
             \<lparr> axis_x = frequencyDomain xProcessed, axis_y = frequencyDomain yProcessed,
               axis_z = frequencyDomain zProcessed,
               magnitude = calculateMagnitude (frequencyDomain xProcessed)
                             (frequencyDomain yProcessed) (frequencyDomain zProcessed) \<rparr> \<rparr> \<rparr>"



text \<open>
  For the normaliser: the real value of a finite number, the column of a key across
  the batch, the linear map onto \<open>[-1, 1]\<close>, what the claim says of one entry of the
  output, the value the code assigns to one entry, and the two conditions on a batch.
\<close>

fun num_val :: "jsnum \<Rightarrow> real" where
  "num_val (Num a) = a"
| "num_val PInf = 0"
| "num_val NInf = 0"
| "num_val NaN = 0"

definition column :: "features list \<Rightarrow> string \<Rightarrow> real list" where
  "column featureRows key = map (\<lambda>row. num_val (getf row key)) featureRows"

definition rescale :: "real \<Rightarrow> real \<Rightarrow> real \<Rightarrow> real" where
  "rescale mn mx v = - 1 + 2 * ((v - mn) / (mx - mn))"

definition normalized_entry :: "features list \<Rightarrow> features list \<Rightarrow> nat \<Rightarrow> string \<Rightarrow> bool" where
  "normalized_entry featureRows out i key =
     (let col = column featureRows key; mn = Min (set col); mx = Max (set col); v = col ! i
      in if mx = mn then getf (out ! i) key = Num 0
         else getf (out ! i) key = Num (rescale mn mx v)
              \<and> - 1 \<le> rescale mn mx v \<and> rescale mn mx v \<le> 1
              \<and> (v = mn \<longrightarrow> getf (out ! i) key = Num (- 1))
              \<and> (v = mx \<longrightarrow> getf (out ! i) key = Num 1))"

definition normalized_value :: "features list \<Rightarrow> features \<Rightarrow> string \<Rightarrow> jsnum" where
  "normalized_value featureRows row key =
     (let vals = map (\<lambda>row. getf row key) featureRows; mn = Math_min vals; mx = Math_max vals
      in if strict_eq mx mn then Num 0
         else jadd (Num (- 1)) (jdiv (jmul (Num 2) (jsub (getf row key) mn)) (jsub mx mn)))"

definition same_keys :: "features list \<Rightarrow> bool" where
  "same_keys featureRows = (\<forall>row \<in> set featureRows. set (map fst row) = set (map fst (hd featureRows)))"

definition finite_values :: "features list \<Rightarrow> bool" where
  "finite_values featureRows = (\<forall>row \<in> set featureRows. \<forall>v \<in> set (map snd row). finite_num v)"

definition batch_example :: "features list" where
  "batch_example = [[(''a'', Num 1), (''b'', Num 5)], [(''a'', Num 3), (''b'', Num 5)], [(''a'', Num 2), (''b'', Num 5)]]"

text \<open>A batch whose only column holds \<^verbatim>\<open>NaN\<close> in its first row.\<close>

definition nan_batch :: "features list" where
  "nan_batch = [[(''a'', NaN)], [(''a'', Num 1)], [(''a'', Num 2)]]"

text \<open>
  For the keys of a feature vector: the names of the statistics, and for each of the four
  kinds of signal the keys \<^verbatim>\<open>extractFeatures\<close> assigns for a signal of that name, listed in
  the order of the canonical list; \<open>extracted_keys\<close> puts them together with the seven
  angle keys. \<open>extends K fs fs'\<close> says that \<open>fs'\<close> comes from \<open>fs\<close> by assignments to the
  keys in \<open>K\<close> only. The remaining predicates say which series a signal mapping holds,
  and \<open>still_at\<close> is a reading of a device lying flat and still.
\<close>

definition axes :: "string list" where
  "axes = [''x'', ''y'', ''z'']"

definition by_feature :: "string \<Rightarrow> string list \<Rightarrow> string list" where
  "by_feature signalType names =
     concat (map (\<lambda>feature. map (\<lambda>axis. signalType @ ''-'' @ feature @ ''-'' @ axis) axes) names)"

definition by_axis :: "string \<Rightarrow> string list \<Rightarrow> string list" where
  "by_axis signalType names =
     concat (map (\<lambda>axis. map (\<lambda>feature. signalType @ ''-'' @ feature @ ''-'' @ axis) names) axes)"

definition plain :: "string \<Rightarrow> string list \<Rightarrow> string list" where
  "plain signalType names = map (\<lambda>feature. signalType @ ''-'' @ feature) names"

definition arCoeff_names :: "string list" where
  "arCoeff_names = [''arCoeff()1'', ''arCoeff()2'', ''arCoeff()3'', ''arCoeff()4'']"

definition band_feature_names :: "string list" where
  "band_feature_names =
     map (\<lambda>(band_start, band_end).
            ''bandsEnergy()-'' @ string_of_nat (band_start + 1) @ '','' @ string_of_nat band_end) bands"

definition time_signal_keys :: "string \<Rightarrow> string list" where
  "time_signal_keys signalType =
     by_feature signalType [''mean()'', ''std()'', ''mad()'', ''max()'', ''min()'']
     @ [signalType @ ''-sma()'']
     @ by_feature signalType [''energy()'', ''iqr()'', ''entropy()'']
     @ by_axis signalType arCoeff_names
     @ [signalType @ ''-correlation()-x,y'', signalType @ ''-correlation()-x,z'',
        signalType @ ''-correlation()-y,z'']"

definition time_magnitude_keys :: "string \<Rightarrow> string list" where
  "time_magnitude_keys signalType =
     plain signalType [''mean()'', ''std()'', ''mad()'', ''max()'', ''min()'']
     @ [signalType @ ''-sma()'']
     @ plain signalType ([''energy()'', ''iqr()'', ''entropy()''] @ arCoeff_names)"

definition frequency_signal_keys :: "string \<Rightarrow> string list" where
  "frequency_signal_keys signalType =
     by_feature signalType [''mean()'', ''std()'', ''mad()'', ''max()'', ''min()'']
     @ [signalType @ ''-sma()'']
     @ by_feature signalType [''energy()'', ''iqr()'', ''entropy()'', ''maxInds'', ''meanFreq()'']
     @ by_axis signalType [''skewness()'', ''kurtosis()'']
     @ by_axis signalType band_feature_names"

definition frequency_magnitude_keys :: "string \<Rightarrow> string list" where
  "frequency_magnitude_keys signalType =
     plain signalType [''mean()'', ''std()'', ''mad()'', ''max()'', ''min()'']
     @ [signalType @ ''-sma()'']
     @ plain signalType [''energy()'', ''iqr()'', ''entropy()'', ''maxInds'', ''meanFreq()'',
                         ''skewness()'', ''kurtosis()'']"

definition angle_keys :: "string list" where
  "angle_keys = [''angle(tBodyAccMean,gravity)'', ''angle(tBodyAccJerkMean,gravityMean)'',
     ''angle(tBodyGyroMean,gravityMean)'', ''angle(tBodyGyroJerkMean,gravityMean)'',
     ''angle(x,gravityMean)'', ''angle(y,gravityMean)'', ''angle(z,gravityMean)'']"

definition extracted_keys :: "string list" where
  "extracted_keys =
     concat (map time_signal_keys [''tBodyAcc'', ''tGravityAcc'', ''tBodyAccJerk'', ''tBodyGyro'', ''tBodyGyroJerk''])
     @ concat (map time_magnitude_keys
                 [''tBodyAccMag'', ''tGravityAccMag'', ''tBodyAccJerkMag'', ''tBodyGyroMag'', ''tBodyGyroJerkMag''])
     @ concat (map frequency_signal_keys [''fBodyAcc'', ''fBodyAccJerk'', ''fBodyGyro''])
     @ concat (map frequency_magnitude_keys
                 [''fBodyAccMag'', ''fBodyBodyAccJerkMag'', ''fBodyBodyGyroMag'', ''fBodyBodyGyroJerkMag''])
     @ angle_keys"

definition basic_names :: "string list" where
  "basic_names = [''mean()'', ''std()'', ''mad()'', ''max()'', ''min()'', ''energy()'', ''iqr()'', ''entropy()'']"

definition extends :: "string set \<Rightarrow> features \<Rightarrow> features \<Rightarrow> bool" where
  "extends K fs fs' =
     (fst ` set fs' = fst ` set fs \<union> K
      \<and> (\<forall>k. k \<notin> K \<longrightarrow> map_of fs' k = map_of fs k)
      \<and> (distinct (map fst fs) \<longrightarrow> distinct (map fst fs')))"

definition frequency_names :: "string list" where
  "frequency_names = basic_names @ [''meanFreq()'', ''maxInds'', ''skewness()'', ''kurtosis()'']"

definition has_axes :: "signals \<Rightarrow> string \<Rightarrow> bool" where
  "has_axes ps st = (\<exists>sig xs ys zs. ps st = Some sig \<and> sig ''x'' = Some xs \<and> sig ''y'' = Some ys \<and> sig ''z'' = Some zs)"

definition has_even_axes :: "signals \<Rightarrow> string \<Rightarrow> bool" where
  "has_even_axes ps st = (\<exists>sig xs ys zs. ps st = Some sig \<and> sig ''x'' = Some xs \<and> sig ''y'' = Some ys \<and> sig ''z'' = Some zs
       \<and> even (length xs) \<and> even (length ys) \<and> even (length zs))"

definition has_mag :: "signals \<Rightarrow> string \<Rightarrow> bool" where
  "has_mag ps st = (\<exists>sig mag. ps st = Some sig \<and> sig ''mag'' = Some mag)"

definition has_even_mag :: "signals \<Rightarrow> string \<Rightarrow> bool" where
  "has_even_mag ps st = (\<exists>sig mag. ps st = Some sig \<and> sig ''mag'' = Some mag \<and> even (length mag))"

definition even_spectra :: "ProcessedSignals \<Rightarrow> bool" where
  "even_spectra ps =
     (even (length (axis_x (frequency_body (frequency ps)))) \<and> even (length (axis_y (frequency_body (frequency ps))))
      \<and> even (length (axis_z (frequency_body (frequency ps)))) \<and> even (length (magnitude (frequency_body (frequency ps))))
      \<and> even (length (axis_x (frequency_bodyJerk (frequency ps)))) \<and> even (length (axis_y (frequency_bodyJerk (frequency ps))))
      \<and> even (length (axis_z (frequency_bodyJerk (frequency ps))))
      \<and> even (length (magnitude (frequency_bodyJerk (frequency ps)))))"

definition time_signal_names :: "string list" where
  "time_signal_names = [''tBodyAcc'', ''tGravityAcc'', ''tBodyAccJerk'', ''tBodyGyro'', ''tBodyGyroJerk'']"

definition time_magnitude_names :: "string list" where
  "time_magnitude_names = [''tBodyAccMag'', ''tGravityAccMag'', ''tBodyAccJerkMag'', ''tBodyGyroMag'', ''tBodyGyroJerkMag'']"

definition frequency_signal_names :: "string list" where
  "frequency_signal_names = [''fBodyAcc'', ''fBodyAccJerk'', ''fBodyGyro'']"

definition frequency_magnitude_names :: "string list" where
  "frequency_magnitude_names = [''fBodyAccMag'', ''fBodyBodyAccJerkMag'', ''fBodyBodyGyroMag'', ''fBodyBodyGyroJerkMag'']"

definition extractFeatures_keys :: "string set" where
  "extractFeatures_keys =
     \<Union> ((\<lambda>st. set (time_signal_keys st)) ` set time_signal_names)
     \<union> \<Union> ((\<lambda>st. set (time_magnitude_keys st)) ` set time_magnitude_names)
     \<union> \<Union> ((\<lambda>st. set (frequency_signal_keys st)) ` set frequency_signal_names)
     \<union> \<Union> ((\<lambda>st. set (frequency_magnitude_keys st)) ` set frequency_magnitude_names)"

definition still_at :: "nat \<Rightarrow> SensorReading" where
  "still_at i = \<lparr> reading_x = Num 0, reading_y = Num 0, reading_z = Num 9.8, timestamp = Num (20 * real i) \<rparr>"


section \<open>Sums over series of finite numbers\<close>









subsection \<open>Rounded evaluation\<close>


lemma round_even_int: "round_even (of_int m) = m"
  by (simp add: round_even_def)













section \<open>The windowing loop\<close>

lemma windowing_loop_from:
  "windowing_loop readings (j * 64) windows =
     windows @ map (\<lambda>i. slice readings (i * 64) (i * 64 + 128)) [j ..< max j (window_count (length readings))]"
proof (induction "window_count (length readings) - j" arbitrary: j windows)
  case 0
  then have le: "window_count (length readings) \<le> j" by simp
  then have "\<not> int (j * 64) < int (length readings) - int windowSize"
    by (simp add: window_count_def windowSize_def)
  then have "windowing_loop readings (j * 64) windows = windows"
    by (subst windowing_loop.simps) simp
  with le show ?case by (simp add: max_def)
next
  case (Suc d)
  then have lt: "j < window_count (length readings)" by simp
  then have c: "int (j * 64) < int (length readings) - int windowSize"
    by (simp add: window_count_def windowSize_def)
  have d: "d = window_count (length readings) - Suc j" using Suc.hyps(2) by simp
  have "windowing_loop readings (j * 64) windows =
          windowing_loop readings (Suc j * 64) (windows @ [slice readings (j * 64) (j * 64 + 128)])"
    using c by (subst windowing_loop.simps) (simp add: windowSize_def add.commute)
  also have "\<dots> = (windows @ [slice readings (j * 64) (j * 64 + 128)]) @
       map (\<lambda>i. slice readings (i * 64) (i * 64 + 128)) [Suc j ..< max (Suc j) (window_count (length readings))]"
    by (rule Suc.hyps(1)[OF d])
  also have "\<dots> = windows @ map (\<lambda>i. slice readings (i * 64) (i * 64 + 128)) [j ..< max j (window_count (length readings))]"
    using lt by (simp add: max_def upt_conv_Cons)
  finally show ?case .
qed

text \<open>
  Claim C2. The windowing loop of \<^verbatim>\<open>processSensorData\<close> makes window \<open>i\<close> the slice that
  starts at sample \<open>64 * i\<close>, for every \<open>i\<close> with \<open>64 * i < n - 128\<close>. For \<open>n = 256\<close>
  samples that is two windows, at the offsets \<open>0\<close> and \<open>64\<close>: the loop condition is
  strict, so the third window at offset \<open>128\<close>, which would end exactly at the last
  sample, is not produced.
\<close>

theorem windowing_256:
  "windowing_loop readings 0 [] =
     map (\<lambda>i. slice readings (i * 64) (i * 64 + 128)) [0 ..< window_count (length readings)]
   \<and> window_count 256 = 2
   \<and> length (windowing_loop (map sample_at [0 ..< 256]) 0 []) = 2"
proof -
  have g: "windowing_loop rs 0 [] =
     map (\<lambda>i. slice rs (i * 64) (i * 64 + 128)) [0 ..< window_count (length rs)]" for rs
    using windowing_loop_from[of rs 0 "[]"] by simp
  have w: "window_count 256 = 2" by (simp add: window_count_def windowSize_def)
  have "length (windowing_loop (map sample_at [0 ..< 256]) 0 []) = window_count (length (map sample_at [0 ..< 256]))"
    unfolding g by (simp only: length_map length_upt diff_zero)
  also have "\<dots> = 2" using w by (simp only: length_map length_upt diff_zero)
  finally show ?thesis using g w by blast
qed

section \<open>Jerk\<close>

lemma calculateJerk_nth:
  assumes "1 \<le> i" "i < length data"
  shows "\<exists>j. calculateJerk data ts = Inr j \<and> length j = length data - 1 \<and>
           j ! (i - 1) = jdiv (jsub (aget data i) (aget data (i - 1)))
                              (jdiv (jsub (aget ts i) (aget ts (i - 1))) (Num 1000))"
proof -
  have idx: "[Suc 0 ..< length data] ! (i - Suc 0) = i"
    using assms by (simp add: nth_upt del: upt_Suc)
  have ne: "data \<noteq> []" using assms by auto
  show ?thesis
    using assms ne idx by (simp add: calculateJerk_def Let_def del: upt_Suc)
qed

text \<open>
  Claim C5, as amended. For a non-empty series of finite numbers with as many finite
  timestamps, \<^verbatim>\<open>calculateJerk\<close> returns \<open>n - 1\<close> values; entry \<open>i - 1\<close> is
  \<open>(s[i] - s[i-1]) / ((t[i] - t[i-1]) / 1000)\<close> where the two timestamps differ, and a
  non-finite number (\<^verbatim>\<open>Infinity\<close>, \<^verbatim>\<open>-Infinity\<close> or \<^verbatim>\<open>NaN\<close>) where they are equal. No error
  is raised for equal timestamps.
\<close>

theorem calculateJerk_values:
  "s \<noteq> [] \<and> length t = length s \<longrightarrow>
     (\<exists>j. calculateJerk (map Num s) (map Num t) = Inr j \<and> length j = length s - 1 \<and>
          (\<forall>i. 1 \<le> i \<and> i < length s \<longrightarrow>
              (if t ! i - t ! (i - 1) \<noteq> 0
               then j ! (i - 1) = Num ((s ! i - s ! (i - 1)) / ((t ! i - t ! (i - 1)) / 1000))
               else \<not> finite_num (j ! (i - 1)))))"
proof (intro impI)
  assume h: "s \<noteq> [] \<and> length t = length s"
  then obtain j where r: "calculateJerk (map Num s) (map Num t) = Inr j"
    by (simp add: calculateJerk_def)
  have l: "length j = length s - 1"
    using r h by (auto simp: calculateJerk_def)
  have v: "if t ! i - t ! (i - 1) \<noteq> 0
           then j ! (i - 1) = Num ((s ! i - s ! (i - 1)) / ((t ! i - t ! (i - 1)) / 1000))
           else \<not> finite_num (j ! (i - 1))" if "1 \<le> i \<and> i < length s" for i
  proof -
    have "j ! (i - 1) = jdiv (jsub (aget (map Num s) i) (aget (map Num s) (i - 1)))
                              (jdiv (jsub (aget (map Num t) i) (aget (map Num t) (i - 1))) (Num 1000))"
      using calculateJerk_nth[of i "map Num s" "map Num t"] that r by auto
    also have "\<dots> = jdiv (Num (s ! i - s ! (i - 1))) (Num ((t ! i - t ! (i - 1)) / 1000))"
    proof -
      have "i - 1 < length s" using that by arith
      then show ?thesis using that h by (simp add: aget_def jsub_def)
    qed
    finally show ?thesis by simp
  qed
  from r l v show "\<exists>j. calculateJerk (map Num s) (map Num t) = Inr j \<and> length j = length s - 1 \<and>
          (\<forall>i. 1 \<le> i \<and> i < length s \<longrightarrow>
              (if t ! i - t ! (i - 1) \<noteq> 0
               then j ! (i - 1) = Num ((s ! i - s ! (i - 1)) / ((t ! i - t ! (i - 1)) / 1000))
               else \<not> finite_num (j ! (i - 1))))"
    by blast
qed

theorem calculateJerk_values_witness:
  "([1, 3, 3] \<noteq> [] \<and> length [0, 20, 20 :: real] = length [1, 3, 3 :: real])
   \<and> (\<exists>j. calculateJerk (map Num [1, 3, 3]) (map Num [0, 20, 20]) = Inr j \<and> length j = 2)"
  using calculateJerk_values[of "[1, 3, 3]" "[0, 20, 20]"] by auto

text \<open>
  Claim C5 as stated fails: with two equal timestamps the function returns a series
  holding \<^verbatim>\<open>Infinity\<close>, where the claim has it fail with an error.
\<close>

theorem calculateJerk_zero_delta: "calculateJerk [Num 0, Num 1] [Num 5, Num 5] = Inr [PInf]"
  by (simp add: calculateJerk_def aget_def jsub_def)

section \<open>Angles with a zero vector\<close>

lemma foldl_invariant:
  assumes "P init" and "\<And>s x. P s \<Longrightarrow> x \<in> set xs \<Longrightarrow> P (f s x)"
  shows "P (foldl f init xs)"
  using assms by (induction xs arbitrary: init) auto









lemma jmul_zero_or_nan_left: "zero_or_nan x \<Longrightarrow> zero_or_nan (jmul x y)"
  by (cases y) (auto simp: zero_or_nan_def)




section \<open>The operands of the angle features\<close>

lemma ebind_Inr_iff: "ebind m f = Inr r \<longleftrightarrow> (\<exists>v. m = Inr v \<and> f v = Inr r)"
  by (cases m) (simp_all add: ebind_def)

lemma signal_of_Inr: "signal_of ps st = Inr sig \<longleftrightarrow> ps st = Some sig"
  by (simp add: signal_of_def split: option.splits)

lemma series_of_Inr: "series_of sig axis = Inr xs \<longleftrightarrow> sig axis = Some xs"
  by (simp add: series_of_def split: option.splits)

text \<open>
  Claim C7, as amended. Whenever \<^verbatim>\<open>extractAngleFeatures\<close> returns and the y and z gravity
  series have the same length, the gravity operand of the six features named
  \<^verbatim>\<open>angle(...,gravityMean)\<close> is the vector of the per-axis means of the gravity series,
  while \<^verbatim>\<open>angle(tBodyAccMean,gravity)\<close> takes the first sample of each gravity axis.
\<close>

theorem angle_operands:
  "extractAngleFeatures ps = Inr fs \<and>
   length (series ps ''tGravityAcc'' ''z'') = length (series ps ''tGravityAcc'' ''y'') \<longrightarrow>
     getf fs ''angle(tBodyAccMean,gravity)'' =
       calculateAngle (mean_vector ps ''tBodyAcc'') (first_sample_vector ps ''tGravityAcc'')
   \<and> getf fs ''angle(tBodyAccJerkMean,gravityMean)'' =
       calculateAngle (mean_vector ps ''tBodyAccJerk'') (mean_vector ps ''tGravityAcc'')
   \<and> getf fs ''angle(tBodyGyroMean,gravityMean)'' =
       calculateAngle (mean_vector ps ''tBodyGyro'') (mean_vector ps ''tGravityAcc'')
   \<and> getf fs ''angle(tBodyGyroJerkMean,gravityMean)'' =
       calculateAngle (mean_vector ps ''tBodyGyroJerk'') (mean_vector ps ''tGravityAcc'')
   \<and> getf fs ''angle(x,gravityMean)'' = calculateAngle [Num 1, Num 0, Num 0] (mean_vector ps ''tGravityAcc'')
   \<and> getf fs ''angle(y,gravityMean)'' = calculateAngle [Num 0, Num 1, Num 0] (mean_vector ps ''tGravityAcc'')
   \<and> getf fs ''angle(z,gravityMean)'' = calculateAngle [Num 0, Num 0, Num 1] (mean_vector ps ''tGravityAcc'')"
proof
  assume h: "extractAngleFeatures ps = Inr fs \<and>
     length (series ps ''tGravityAcc'' ''z'') = length (series ps ''tGravityAcc'' ''y'')"
  then have e: "extractAngleFeatures ps = Inr fs" by simp
  from e obtain g gx gy gz a ax ay az aj ajx ajy ajz w wx wy wz wj wjx wjy wjz where
    s: "ps ''tGravityAcc'' = Some g" "g ''x'' = Some gx" "g ''y'' = Some gy" "g ''z'' = Some gz"
       "ps ''tBodyAcc'' = Some a" "a ''x'' = Some ax" "a ''y'' = Some ay" "a ''z'' = Some az"
       "ps ''tBodyAccJerk'' = Some aj" "aj ''x'' = Some ajx" "aj ''y'' = Some ajy" "aj ''z'' = Some ajz"
       "ps ''tBodyGyro'' = Some w" "w ''x'' = Some wx" "w ''y'' = Some wy" "w ''z'' = Some wz"
       "ps ''tBodyGyroJerk'' = Some wj" "wj ''x'' = Some wjx" "wj ''y'' = Some wjy" "wj ''z'' = Some wjz"
    unfolding extractAngleFeatures_def Let_def ebind_Inr_iff signal_of_Inr series_of_Inr
    by blast
  have l: "length gz = length gy" using h s by (simp add: series_def)
  have fs: "fs =
     [(''angle(tBodyAccMean,gravity)'',
         calculateAngle [series_mean ax, series_mean ay, series_mean az] [aget gx 0, aget gy 0, aget gz 0]),
      (''angle(tBodyAccJerkMean,gravityMean)'',
         calculateAngle [series_mean ajx, series_mean ajy, series_mean ajz]
           [series_mean gx, series_mean gy, series_mean gz]),
      (''angle(tBodyGyroMean,gravityMean)'',
         calculateAngle [series_mean wx, series_mean wy, series_mean wz]
           [series_mean gx, series_mean gy, series_mean gz]),
      (''angle(tBodyGyroJerkMean,gravityMean)'',
         calculateAngle [series_mean wjx, series_mean wjy, series_mean wjz]
           [series_mean gx, series_mean gy, series_mean gz]),
      (''angle(x,gravityMean)'', calculateAngle [Num 1, Num 0, Num 0] [series_mean gx, series_mean gy, series_mean gz]),
      (''angle(y,gravityMean)'', calculateAngle [Num 0, Num 1, Num 0] [series_mean gx, series_mean gy, series_mean gz]),
      (''angle(z,gravityMean)'', calculateAngle [Num 0, Num 0, Num 1] [series_mean gx, series_mean gy, series_mean gz])]"
    using e s l
    by (simp add: extractAngleFeatures_def Let_def ebind_def signal_of_def series_of_def put_def
          series_mean_def len_def)
  show "getf fs ''angle(tBodyAccMean,gravity)'' =
       calculateAngle (mean_vector ps ''tBodyAcc'') (first_sample_vector ps ''tGravityAcc'')
   \<and> getf fs ''angle(tBodyAccJerkMean,gravityMean)'' =
       calculateAngle (mean_vector ps ''tBodyAccJerk'') (mean_vector ps ''tGravityAcc'')
   \<and> getf fs ''angle(tBodyGyroMean,gravityMean)'' =
       calculateAngle (mean_vector ps ''tBodyGyro'') (mean_vector ps ''tGravityAcc'')
   \<and> getf fs ''angle(tBodyGyroJerkMean,gravityMean)'' =
       calculateAngle (mean_vector ps ''tBodyGyroJerk'') (mean_vector ps ''tGravityAcc'')
   \<and> getf fs ''angle(x,gravityMean)'' = calculateAngle [Num 1, Num 0, Num 0] (mean_vector ps ''tGravityAcc'')
   \<and> getf fs ''angle(y,gravityMean)'' = calculateAngle [Num 0, Num 1, Num 0] (mean_vector ps ''tGravityAcc'')
   \<and> getf fs ''angle(z,gravityMean)'' = calculateAngle [Num 0, Num 0, Num 1] (mean_vector ps ''tGravityAcc'')"
    unfolding fs using s
    by (simp add: getf_def mean_vector_def first_sample_vector_def series_def)
qed

lemma angle_example_result:
  "extractAngleFeatures angle_example =
     Inr [(''angle(tBodyAccMean,gravity)'', Num 0),
          (''angle(tBodyAccJerkMean,gravityMean)'', Num pi),
          (''angle(tBodyGyroMean,gravityMean)'', Num pi),
          (''angle(tBodyGyroJerkMean,gravityMean)'', Num pi),
          (''angle(x,gravityMean)'', Num pi),
          (''angle(y,gravityMean)'', Num (pi / 2)),
          (''angle(z,gravityMean)'', Num (pi / 2))]"
  by (simp add: extractAngleFeatures_def angle_example_def unit_x_signal_def Let_def ebind_def
        signal_of_def series_of_def put_def series_mean_def len_def calculateAngle_def
        reduce_i_def aget_def upt_rec)

text \<open>
  Claim C7 as stated fails: on the example the feature \<^verbatim>\<open>angle(tBodyAccMean,gravity)\<close> is
  \<open>0\<close>, the angle to the first gravity sample, while the angle between the two mean
  vectors is \<open>\<pi>\<close>.
\<close>

theorem angle_gravity_counterexample:
  "feature_of (extractAngleFeatures angle_example) ''angle(tBodyAccMean,gravity)'' = Some (Num 0)
   \<and> calculateAngle (mean_vector angle_example ''tBodyAcc'') (mean_vector angle_example ''tGravityAcc'') = Num pi"
  by (simp add: angle_example_result feature_of_def)
     (simp add: mean_vector_def series_def angle_example_def unit_x_signal_def series_mean_def
        len_def calculateAngle_def reduce_i_def aget_def upt_rec)

theorem angle_operands_witness:
  "(extractAngleFeatures angle_example =
     Inr [(''angle(tBodyAccMean,gravity)'', Num 0),
          (''angle(tBodyAccJerkMean,gravityMean)'', Num pi),
          (''angle(tBodyGyroMean,gravityMean)'', Num pi),
          (''angle(tBodyGyroJerkMean,gravityMean)'', Num pi),
          (''angle(x,gravityMean)'', Num pi),
          (''angle(y,gravityMean)'', Num (pi / 2)),
          (''angle(z,gravityMean)'', Num (pi / 2))] \<and>
    length (series angle_example ''tGravityAcc'' ''z'') = length (series angle_example ''tGravityAcc'' ''y''))
   \<and> calculateAngle (mean_vector angle_example ''tBodyAcc'') (first_sample_vector angle_example ''tGravityAcc'') = Num 0
   \<and> calculateAngle [Num 1, Num 0, Num 0] (mean_vector angle_example ''tGravityAcc'') = Num pi"
proof -
  let ?fs = "[(''angle(tBodyAccMean,gravity)'', Num 0),
          (''angle(tBodyAccJerkMean,gravityMean)'', Num pi),
          (''angle(tBodyGyroMean,gravityMean)'', Num pi),
          (''angle(tBodyGyroJerkMean,gravityMean)'', Num pi),
          (''angle(x,gravityMean)'', Num pi),
          (''angle(y,gravityMean)'', Num (pi / 2)),
          (''angle(z,gravityMean)'', Num (pi / 2))]"
  have l: "length (series angle_example ''tGravityAcc'' ''z'') = length (series angle_example ''tGravityAcc'' ''y'')"
    by (simp add: series_def angle_example_def)
  have g: "getf ?fs ''angle(tBodyAccMean,gravity)'' = Num 0" "getf ?fs ''angle(x,gravityMean)'' = Num pi"
    by (simp_all add: getf_def)
  show ?thesis
    using angle_operands[of angle_example ?fs] angle_example_result l g by simp
qed

section \<open>Angle features with a zero vector\<close>







section \<open>The shape of the processed signals\<close>

lemma ebind_Inr [simp]: "ebind (Inr v) f = f v"
  by (simp add: ebind_def)

lemma ebind_Inl [simp]: "ebind (Inl e) f = Inl e"
  by (simp add: ebind_def)

lemma length_medianFilter [simp]: "length (medianFilter data w) = length data"
  by (simp add: medianFilter_def)

lemma length_butterworth_loop [simp]:
  "length (butterworth_loop b0 b1 b2 a1 a2 data st) = length data"
  by (induction b0 b1 b2 a1 a2 data st rule: butterworth_loop.induct) (simp_all add: Let_def)

lemma length_butterworthFilter [simp]: "length (butterworthFilter data cutoffFreq order) = length data"
  by (simp add: butterworthFilter_def Let_def)

lemma length_calculateMagnitude [simp]: "length (calculateMagnitude xs ys zs) = length xs"
  by (simp add: calculateMagnitude_def)

lemma calculateJerk_Inr:
  "data \<noteq> [] \<Longrightarrow> \<exists>j. calculateJerk data ts = Inr j \<and> length j = length data - 1"
  by (simp add: calculateJerk_def)

lemma length_transform [simp]: "length (transform n inp) = 2 * n"
  by (simp add: transform_def length_concat comp_def sum_list_triv)

lemma fftSize_of_ge: "n \<le> fftSize_of n"
  by (simp add: fftSize_of_def le_two_power_ceillog2)

lemma fft_Inr:
  assumes "2 \<le> length data"
  shows "\<exists>spectrum. fft data = Inr spectrum \<and> length spectrum = 2 * fftSize_of (length data)"
proof -
  have "2 \<le> fftSize_of (length data)"
    using assms fftSize_of_ge[of "length data"] by linarith
  then show ?thesis by (simp add: fft_def Let_def)
qed

lemma processAxis_Inr:
  assumes "2 \<le> length data"
  shows "\<exists>r. processAxis data ts cutoffFreq = Inr r
            \<and> length (bodyComponent r) = length data
            \<and> length (gravityComponent r) = length data
            \<and> length (jerk r) = length data - 1
            \<and> fft (bodyComponent r) = Inr (frequencyDomain r)
            \<and> length (frequencyDomain r) = 2 * fftSize_of (length data)"
proof -
  define noiseFiltered where "noiseFiltered = butterworthFilter (medianFilter data 3) cutoffFreq 3"
  define gravityC where "gravityC = butterworthFilter noiseFiltered (Num 0.3) 3"
  define bodyC where "bodyC = map (\<lambda>(val, i). jsub val (aget gravityC i))
                              (zip noiseFiltered [0 ..< length noiseFiltered])"
  have ln: "length noiseFiltered = length data" by (simp add: noiseFiltered_def)
  have lg: "length gravityC = length data" by (simp add: gravityC_def ln)
  have lb: "length bodyC = length data" by (simp add: bodyC_def ln)
  have "bodyC \<noteq> []" using lb assms by auto
  then obtain j where j: "calculateJerk bodyC ts = Inr j" "length j = length bodyC - 1"
    using calculateJerk_Inr by blast
  obtain sp where sp: "fft bodyC = Inr sp" "length sp = 2 * fftSize_of (length bodyC)"
    using fft_Inr[of bodyC] lb assms by auto
  have "processAxis data ts cutoffFreq =
          Inr \<lparr> bodyComponent = bodyC, gravityComponent = gravityC, jerk = j, frequencyDomain = sp \<rparr>"
    unfolding processAxis_def Let_def
    by (simp add: j sp flip: noiseFiltered_def gravityC_def bodyC_def)
  then show ?thesis using lb lg j sp by simp
qed


lemma processReadings_axes:
  assumes "processAxis (map reading_x readings) (map timestamp readings) cutoffFreq = Inr xProcessed"
    and "processAxis (map reading_y readings) (map timestamp readings) cutoffFreq = Inr yProcessed"
    and "processAxis (map reading_z readings) (map timestamp readings) cutoffFreq = Inr zProcessed"
  shows "processReadings windows readings cutoffFreq = Inr (signals_of_axes xProcessed yProcessed zProcessed)"
  by (simp add: processReadings_def Let_def assms signals_of_axes_def)

lemma processReadings_Inr_iff:
  "processReadings windows readings cutoffFreq = Inr ps \<longleftrightarrow>
     (\<exists>xProcessed yProcessed zProcessed.
        processAxis (map reading_x readings) (map timestamp readings) cutoffFreq = Inr xProcessed
      \<and> processAxis (map reading_y readings) (map timestamp readings) cutoffFreq = Inr yProcessed
      \<and> processAxis (map reading_z readings) (map timestamp readings) cutoffFreq = Inr zProcessed
      \<and> ps = signals_of_axes xProcessed yProcessed zProcessed)"
proof -
  have "processReadings windows readings cutoffFreq =
          ebind (processAxis (map reading_x readings) (map timestamp readings) cutoffFreq) (\<lambda>xProcessed.
          ebind (processAxis (map reading_y readings) (map timestamp readings) cutoffFreq) (\<lambda>yProcessed.
          ebind (processAxis (map reading_z readings) (map timestamp readings) cutoffFreq) (\<lambda>zProcessed.
          Inr (signals_of_axes xProcessed yProcessed zProcessed))))"
    by (simp add: processReadings_def Let_def signals_of_axes_def)
  then show ?thesis
    by (cases "processAxis (map reading_x readings) (map timestamp readings) cutoffFreq";
        cases "processAxis (map reading_y readings) (map timestamp readings) cutoffFreq";
        cases "processAxis (map reading_z readings) (map timestamp readings) cutoffFreq")
       auto
qed

lemma processSensorData_eq: "processSensorData readings cutoffFreq = processReadings windows readings cutoffFreq"
  by (simp add: processSensorData_def processReadings_def)

lemma processAxis_parts:
  assumes "processAxis data ts cutoffFreq = Inr r"
  shows "calculateJerk (bodyComponent r) ts = Inr (jerk r) \<and> fft (bodyComponent r) = Inr (frequencyDomain r)"
  using assms unfolding processAxis_def Let_def
  by (auto simp: ebind_def split: sum.splits)

lemma processSensorData_shape:
  assumes n: "2 \<le> length readings"
  shows "\<exists>xP yP zP.
           (\<forall>windows. processReadings windows readings cutoffFreq = Inr (signals_of_axes xP yP zP))
         \<and> processSensorData readings cutoffFreq = Inr (signals_of_axes xP yP zP)
         \<and> length (bodyComponent xP) = length readings \<and> length (bodyComponent yP) = length readings
         \<and> length (bodyComponent zP) = length readings
         \<and> length (gravityComponent xP) = length readings \<and> length (gravityComponent yP) = length readings
         \<and> length (gravityComponent zP) = length readings
         \<and> length (jerk xP) = length readings - 1 \<and> length (jerk yP) = length readings - 1
         \<and> length (jerk zP) = length readings - 1
         \<and> length (frequencyDomain xP) = 2 * fftSize_of (length readings)
         \<and> length (frequencyDomain yP) = 2 * fftSize_of (length readings)
         \<and> length (frequencyDomain zP) = 2 * fftSize_of (length readings)"
proof -
  obtain xP where x: "processAxis (map reading_x readings) (map timestamp readings) cutoffFreq = Inr xP"
    "length (bodyComponent xP) = length readings" "length (gravityComponent xP) = length readings"
    "length (jerk xP) = length readings - 1" "length (frequencyDomain xP) = 2 * fftSize_of (length readings)"
    using processAxis_Inr[of "map reading_x readings" "map timestamp readings" cutoffFreq] n by auto
  obtain yP where y: "processAxis (map reading_y readings) (map timestamp readings) cutoffFreq = Inr yP"
    "length (bodyComponent yP) = length readings" "length (gravityComponent yP) = length readings"
    "length (jerk yP) = length readings - 1" "length (frequencyDomain yP) = 2 * fftSize_of (length readings)"
    using processAxis_Inr[of "map reading_y readings" "map timestamp readings" cutoffFreq] n by auto
  obtain zP where z: "processAxis (map reading_z readings) (map timestamp readings) cutoffFreq = Inr zP"
    "length (bodyComponent zP) = length readings" "length (gravityComponent zP) = length readings"
    "length (jerk zP) = length readings - 1" "length (frequencyDomain zP) = 2 * fftSize_of (length readings)"
    using processAxis_Inr[of "map reading_z readings" "map timestamp readings" cutoffFreq] n by auto
  have all: "processReadings windows readings cutoffFreq = Inr (signals_of_axes xP yP zP)" for windows
    by (rule processReadings_axes[OF x(1) y(1) z(1)])
  then have "processSensorData readings cutoffFreq = Inr (signals_of_axes xP yP zP)"
    by (simp add: processSensorData_def)
  with all x y z show ?thesis by blast
qed

text \<open>
  Claim C10. For at least two readings \<^verbatim>\<open>processSensorData\<close> returns; whatever array of
  windows the loop has built, the part after the loop returns the same signals; every
  body and gravity series (and magnitude) has the length of the readings, not of a window;
  every jerk series has one element less.
\<close>

theorem windows_unused:
  "2 \<le> length readings \<longrightarrow>
     (\<exists>ps. processSensorData readings cutoffFreq = Inr ps
        \<and> (\<forall>windows. processReadings windows readings cutoffFreq = Inr ps)
        \<and> length (axis_x (time_body (time ps))) = length readings
        \<and> length (axis_y (time_body (time ps))) = length readings
        \<and> length (axis_z (time_body (time ps))) = length readings
        \<and> length (magnitude (time_body (time ps))) = length readings
        \<and> length (axis_x (time_gravity (time ps))) = length readings
        \<and> length (axis_y (time_gravity (time ps))) = length readings
        \<and> length (axis_z (time_gravity (time ps))) = length readings
        \<and> length (magnitude (time_gravity (time ps))) = length readings
        \<and> length (axis_x (time_bodyJerk (time ps))) = length readings - 1
        \<and> length (axis_y (time_bodyJerk (time ps))) = length readings - 1
        \<and> length (axis_z (time_bodyJerk (time ps))) = length readings - 1
        \<and> length (magnitude (time_bodyJerk (time ps))) = length readings - 1)"
proof
  assume n: "2 \<le> length readings"
  from processSensorData_shape[OF n, of cutoffFreq] obtain xP yP zP where
    all: "\<forall>windows. processReadings windows readings cutoffFreq = Inr (signals_of_axes xP yP zP)"
    and p: "processSensorData readings cutoffFreq = Inr (signals_of_axes xP yP zP)"
    and l: "length (bodyComponent xP) = length readings" "length (bodyComponent yP) = length readings"
      "length (bodyComponent zP) = length readings"
      "length (gravityComponent xP) = length readings" "length (gravityComponent yP) = length readings"
      "length (gravityComponent zP) = length readings"
      "length (jerk xP) = length readings - 1" "length (jerk yP) = length readings - 1"
      "length (jerk zP) = length readings - 1"
    by blast
  let ?ps = "signals_of_axes xP yP zP"
  have "length (axis_x (time_body (time ?ps))) = length readings"
    "length (axis_y (time_body (time ?ps))) = length readings"
    "length (axis_z (time_body (time ?ps))) = length readings"
    "length (magnitude (time_body (time ?ps))) = length readings"
    "length (axis_x (time_gravity (time ?ps))) = length readings"
    "length (axis_y (time_gravity (time ?ps))) = length readings"
    "length (axis_z (time_gravity (time ?ps))) = length readings"
    "length (magnitude (time_gravity (time ?ps))) = length readings"
    "length (axis_x (time_bodyJerk (time ?ps))) = length readings - 1"
    "length (axis_y (time_bodyJerk (time ?ps))) = length readings - 1"
    "length (axis_z (time_bodyJerk (time ?ps))) = length readings - 1"
    "length (magnitude (time_bodyJerk (time ?ps))) = length readings - 1"
    using l by (simp_all add: signals_of_axes_def)
  with p all show "\<exists>ps. processSensorData readings cutoffFreq = Inr ps
        \<and> (\<forall>windows. processReadings windows readings cutoffFreq = Inr ps)
        \<and> length (axis_x (time_body (time ps))) = length readings
        \<and> length (axis_y (time_body (time ps))) = length readings
        \<and> length (axis_z (time_body (time ps))) = length readings
        \<and> length (magnitude (time_body (time ps))) = length readings
        \<and> length (axis_x (time_gravity (time ps))) = length readings
        \<and> length (axis_y (time_gravity (time ps))) = length readings
        \<and> length (axis_z (time_gravity (time ps))) = length readings
        \<and> length (magnitude (time_gravity (time ps))) = length readings
        \<and> length (axis_x (time_bodyJerk (time ps))) = length readings - 1
        \<and> length (axis_y (time_bodyJerk (time ps))) = length readings - 1
        \<and> length (axis_z (time_bodyJerk (time ps))) = length readings - 1
        \<and> length (magnitude (time_bodyJerk (time ps))) = length readings - 1"
    by blast
qed

theorem windows_unused_witness:
  "2 \<le> length (map sample_at [0 ..< 256])
   \<and> (\<exists>ps. processSensorData (map sample_at [0 ..< 256]) (Num 20) = Inr ps
          \<and> length (axis_x (time_body (time ps))) = 256
          \<and> length (axis_x (time_bodyJerk (time ps))) = 255)"
proof -
  have l: "length (map sample_at [0 ..< 256]) = 256" by (simp only: length_map length_upt diff_zero)
  show ?thesis
    using windows_unused[of "map sample_at [0 ..< 256]" "Num 20"] unfolding l by auto
qed

lemma fftSize_of_3: "fftSize_of 3 = 4"
proof -
  have "ceillog2 3 = 2" by (rule ceillog2_eqI) simp_all
  then show ?thesis by (simp add: fftSize_of_def)
qed

lemma fftSize_of_2: "fftSize_of 2 = 2"
  by (simp add: fftSize_of_def)

text \<open>
  Claim C3 fails on the code. Whenever \<^verbatim>\<open>processSensorData\<close> returns, the record
  \<^verbatim>\<open>frequency.bodyJerk\<close> is the record \<^verbatim>\<open>frequency.body\<close>, and each of its axes is the
  transform of the body component, not of the jerk series. For three readings the two
  differ visibly: the spectrum stored under \<^verbatim>\<open>bodyJerk\<close> has 8 entries, the transform of
  the jerk series has 4.
\<close>

theorem bodyJerk_spectrum:
  "(processSensorData readings cutoffFreq = Inr ps \<longrightarrow>
       frequency_bodyJerk (frequency ps) = frequency_body (frequency ps)
     \<and> fft (axis_x (time_body (time ps))) = Inr (axis_x (frequency_bodyJerk (frequency ps)))
     \<and> fft (axis_y (time_body (time ps))) = Inr (axis_y (frequency_bodyJerk (frequency ps)))
     \<and> fft (axis_z (time_body (time ps))) = Inr (axis_z (frequency_bodyJerk (frequency ps))))
   \<and> (\<exists>ps3. processSensorData (map sample_at [0 ..< 3]) (Num 20) = Inr ps3
         \<and> length (axis_x (frequency_bodyJerk (frequency ps3))) = 8
         \<and> (\<exists>spectrum. fft (axis_x (time_bodyJerk (time ps3))) = Inr spectrum \<and> length spectrum = 4))"
proof (intro conjI impI)
  assume "processSensorData readings cutoffFreq = Inr ps"
  then have "processReadings [] readings cutoffFreq = Inr ps"
    by (simp add: processSensorData_eq[of _ _ "[]"])
  then obtain xP yP zP where
    ax: "processAxis (map reading_x readings) (map timestamp readings) cutoffFreq = Inr xP"
      "processAxis (map reading_y readings) (map timestamp readings) cutoffFreq = Inr yP"
      "processAxis (map reading_z readings) (map timestamp readings) cutoffFreq = Inr zP"
    and ps: "ps = signals_of_axes xP yP zP"
    unfolding processReadings_Inr_iff by blast
  show "frequency_bodyJerk (frequency ps) = frequency_body (frequency ps)"
    by (simp add: ps signals_of_axes_def)
  show "fft (axis_x (time_body (time ps))) = Inr (axis_x (frequency_bodyJerk (frequency ps)))"
    using processAxis_parts[OF ax(1)] by (simp add: ps signals_of_axes_def)
  show "fft (axis_y (time_body (time ps))) = Inr (axis_y (frequency_bodyJerk (frequency ps)))"
    using processAxis_parts[OF ax(2)] by (simp add: ps signals_of_axes_def)
  show "fft (axis_z (time_body (time ps))) = Inr (axis_z (frequency_bodyJerk (frequency ps)))"
    using processAxis_parts[OF ax(3)] by (simp add: ps signals_of_axes_def)
next
  have l3: "length (map sample_at [0 ..< 3]) = 3" by simp
  then have "2 \<le> length (map sample_at [0 ..< 3])" by simp
  from processSensorData_shape[OF this, of "Num 20"] obtain xP yP zP where
    p: "processSensorData (map sample_at [0 ..< 3]) (Num 20) = Inr (signals_of_axes xP yP zP)"
    and j: "length (jerk xP) = length (map sample_at [0 ..< 3]) - 1"
    and f: "length (frequencyDomain xP) = 2 * fftSize_of (length (map sample_at [0 ..< 3]))"
    by blast
  have j2: "length (jerk xP) = 2" using j unfolding l3 by simp
  have f8: "length (frequencyDomain xP) = 8" using f unfolding l3 by (simp add: fftSize_of_3)
  obtain sp where sp: "fft (jerk xP) = Inr sp" "length sp = 2 * fftSize_of (length (jerk xP))"
    using fft_Inr[of "jerk xP"] j2 by auto
  have "length sp = 4" using sp(2) by (simp add: j2 fftSize_of_2)
  with p f8 sp(1) show "\<exists>ps3. processSensorData (map sample_at [0 ..< 3]) (Num 20) = Inr ps3
         \<and> length (axis_x (frequency_bodyJerk (frequency ps3))) = 8
         \<and> (\<exists>spectrum. fft (axis_x (time_bodyJerk (time ps3))) = Inr spectrum \<and> length spectrum = 4)"
    by (intro exI[of _ "signals_of_axes xP yP zP"]) (simp add: signals_of_axes_def)
qed

theorem bodyJerk_spectrum_witness:
  "\<exists>ps. processSensorData (map sample_at [0 ..< 3]) (Num 20) = Inr ps
       \<and> frequency_bodyJerk (frequency ps) = frequency_body (frequency ps)
       \<and> fft (axis_x (time_body (time ps))) = Inr (axis_x (frequency_bodyJerk (frequency ps)))"
proof -
  have "2 \<le> length (map sample_at [0 ..< 3])" by simp
  from processSensorData_shape[OF this, of "Num 20"] obtain ps where
    p: "processSensorData (map sample_at [0 ..< 3]) (Num 20) = Inr ps"
    by blast
  show ?thesis
    using bodyJerk_spectrum[of "map sample_at [0 ..< 3]" "Num 20" ps] p by blast
qed

section \<open>Normalisation\<close>

lemma finite_num_val: "finite_num v \<Longrightarrow> v = Num (num_val v)"
  by (cases v) simp_all

lemma foldl_jmin_Num: "foldl jmin (Num a) (map Num rs) = Num (foldl min a rs)"
  by (induction rs arbitrary: a) simp_all

lemma foldl_jmax_Num: "foldl jmax (Num a) (map Num rs) = Num (foldl max a rs)"
  by (induction rs arbitrary: a) simp_all

lemma foldl_min_Min: "foldl min (a::real) rs = Min (set (a # rs))"
proof -
  have "(\<lambda>x y. min y x) = (min :: real \<Rightarrow> real \<Rightarrow> real)" by (intro ext) (simp add: min.commute)
  then have "foldl min a rs = fold min rs a" unfolding foldl_conv_fold by (rule arg_cong[where f = "\<lambda>f. fold f rs a"])
  also have "\<dots> = Min (set (a # rs))" by (rule Min.set_eq_fold[symmetric])
  finally show ?thesis .
qed

lemma foldl_max_Max: "foldl max (a::real) rs = Max (set (a # rs))"
proof -
  have "(\<lambda>x y. max y x) = (max :: real \<Rightarrow> real \<Rightarrow> real)" by (intro ext) (simp add: max.commute)
  then have "foldl max a rs = fold max rs a" unfolding foldl_conv_fold by (rule arg_cong[where f = "\<lambda>f. fold f rs a"])
  also have "\<dots> = Max (set (a # rs))" by (rule Max.set_eq_fold[symmetric])
  finally show ?thesis .
qed

lemma Math_min_Num: "rs \<noteq> [] \<Longrightarrow> Math_min (map Num rs) = Num (Min (set rs))"
  by (cases rs) (simp_all add: Math_min_def foldl_jmin_Num foldl_min_Min)

lemma Math_max_Num: "rs \<noteq> [] \<Longrightarrow> Math_max (map Num rs) = Num (Max (set rs))"
  by (cases rs) (simp_all add: Math_max_def foldl_jmax_Num foldl_max_Max)

lemma map_of_foldl_update:
  "map_of (foldl (\<lambda>acc key. AList.update key (f key) acc) acc0 keys) k =
     (if k \<in> set keys then Some (f k) else map_of acc0 k)"
  by (induction keys arbitrary: acc0) (auto simp: update_conv')

lemma getf_foldl_put:
  assumes "\<And>key nr. key \<in> set keys \<Longrightarrow> step nr key = put key (g key) nr"
  shows "getf (foldl step row keys) k = (if k \<in> set keys then g k else getf row k)"
  using assms
proof (induction keys arbitrary: row)
  case Nil
  then show ?case by simp
next
  case (Cons key keys)
  have "getf (foldl step (step row key) keys) k = (if k \<in> set keys then g k else getf (step row key) k)"
    by (rule Cons.IH) (simp add: Cons.prems)
  moreover have "step row key = put key (g key) row" by (simp add: Cons.prems)
  ultimately show ?case by (simp add: getf_def put_def update_conv')
qed

lemma rescale_bounds:
  assumes "mn \<le> v" "v \<le> mx" "mx \<noteq> mn"
  shows "- 1 \<le> rescale mn mx v" "rescale mn mx v \<le> 1" "rescale mn mx mn = - 1" "rescale mn mx mx = 1"
proof -
  have d: "0 < mx - mn" using assms by simp
  have "0 \<le> (v - mn) / (mx - mn)" using assms d by simp
  then show "- 1 \<le> rescale mn mx v" unfolding rescale_def by linarith
  have "(v - mn) / (mx - mn) \<le> 1" using assms d by simp
  then show "rescale mn mx v \<le> 1" unfolding rescale_def by linarith
  show "rescale mn mx mn = - 1" by (simp add: rescale_def)
  show "rescale mn mx mx = 1" using d by (simp add: rescale_def)
qed

lemma getf_finite:
  assumes "key \<in> set (map fst row)" "\<forall>v \<in> set (map snd row). finite_num v"
  shows "getf row key = Num (num_val (getf row key))"
proof -
  from assms(1) obtain v where v: "map_of row key = Some v"
    by (metis map_of_eq_None_iff not_Some_eq set_map)
  then have "(key, v) \<in> set row" by (rule map_of_SomeD)
  then have "v \<in> set (map snd row)" by force
  with assms(2) have "finite_num v" by blast
  then show ?thesis using v by (simp add: getf_def finite_num_val[symmetric])
qed

lemma normalizeFeatures_entry:
  assumes "featureRows \<noteq> []" "i < length featureRows" "key \<in> set (map fst (hd featureRows))"
  shows "\<exists>out. normalizeFeatures featureRows = Inr out \<and> length out = length featureRows
           \<and> getf (out ! i) key = normalized_value featureRows (featureRows ! i) key"
proof -
  obtain row0 rest where rows: "featureRows = row0 # rest" using assms(1) by (cases featureRows) auto
  define keys where "keys = map fst row0"
  define minMax where "minMax = foldl (\<lambda>acc key.
        (let vals = map (\<lambda>row. getf row key) featureRows
         in AList.update key (Math_min vals, Math_max vals) acc)) [] keys"
  define step where "step = (\<lambda>row normalizedRow key.
        (case map_of minMax key of
           None \<Rightarrow> normalizedRow
         | Some (mn, mx) \<Rightarrow>
             if strict_eq mx mn then put key (Num 0) normalizedRow
             else put key (jadd (Num (- 1)) (jdiv (jmul (Num 2) (jsub (getf row key) mn)) (jsub mx mn)))
                    normalizedRow))"
  have nf: "normalizeFeatures featureRows = Inr (map (\<lambda>row. foldl (step row) row keys) featureRows)"
    by (simp add: normalizeFeatures_def step_def minMax_def keys_def rows Let_def)
  have mm: "map_of minMax k = (if k \<in> set keys then
               Some (Math_min (map (\<lambda>row. getf row k) featureRows), Math_max (map (\<lambda>row. getf row k) featureRows))
             else None)" for k
    unfolding minMax_def Let_def
    using map_of_foldl_update[of "\<lambda>key. (Math_min (map (\<lambda>row. getf row key) featureRows),
                                          Math_max (map (\<lambda>row. getf row key) featureRows))" "[]" keys k]
    by simp
  have st: "step row nr k = put k (normalized_value featureRows row k) nr" if "k \<in> set keys" for row nr k
    using that by (simp add: step_def mm normalized_value_def Let_def)
  have "getf (foldl (step row) row keys) k =
          (if k \<in> set keys then normalized_value featureRows row k else getf row k)" for row k
    by (rule getf_foldl_put) (simp add: st)
  moreover have "key \<in> set keys" using assms(3) by (simp add: keys_def rows)
  ultimately have "getf (foldl (step (featureRows ! i)) (featureRows ! i) keys) key =
       normalized_value featureRows (featureRows ! i) key" by simp
  then show ?thesis using nf assms(2) by simp
qed

lemma normalized_value_finite:
  assumes ne: "featureRows \<noteq> []" and i: "i < length featureRows"
    and keys: "\<forall>row \<in> set featureRows. key \<in> set (map fst row)"
    and fin: "\<forall>row \<in> set featureRows. \<forall>v \<in> set (map snd row). finite_num v"
  defines "col \<equiv> column featureRows key"
  shows "normalized_value featureRows (featureRows ! i) key =
           (if Max (set col) = Min (set col) then Num 0
            else Num (rescale (Min (set col)) (Max (set col)) (col ! i)))"
proof -
  have vals: "map (\<lambda>row. getf row key) featureRows = map Num col"
  proof -
    have "getf row key = Num (num_val (getf row key))" if "row \<in> set featureRows" for row
      using getf_finite[of key row] keys fin that by blast
    then show ?thesis by (simp add: col_def column_def)
  qed
  have cne: "col \<noteq> []" using ne by (simp add: col_def column_def)
  have gi: "getf (featureRows ! i) key = Num (col ! i)"
    using arg_cong[OF vals, of "\<lambda>xs. xs ! i"] i by (simp add: col_def column_def)
  show ?thesis
    unfolding normalized_value_def Let_def vals Math_min_Num[OF cne] Math_max_Num[OF cne] gi
    by (simp add: strict_eq_def jsub_def rescale_def)
qed

text \<open>
  Claim C4, as amended. For a non-empty batch of rows with the same keys and finite values,
  \<^verbatim>\<open>normalizeFeatures\<close> returns as many rows; for each key, with \<open>mn\<close> and \<open>mx\<close> the least
  and greatest value of its column: if \<open>mx = mn\<close> every output is \<open>0\<close>, otherwise the
  value \<open>v\<close> becomes \<open>-1 + 2 (v - mn) / (mx - mn)\<close>, which lies in \<open>[-1, 1]\<close>, is \<open>-1\<close> at
  the minimum and \<open>1\<close> at the maximum.
\<close>

theorem normalizeFeatures_rescales:
  "featureRows \<noteq> [] \<and> same_keys featureRows \<and> finite_values featureRows \<longrightarrow>
     (\<exists>out. normalizeFeatures featureRows = Inr out \<and> length out = length featureRows
        \<and> (\<forall>i < length featureRows. \<forall>key \<in> set (map fst (hd featureRows)).
              normalized_entry featureRows out i key))"
proof
  assume h: "featureRows \<noteq> [] \<and> same_keys featureRows \<and> finite_values featureRows"
  then have ne: "featureRows \<noteq> []" and sk: "same_keys featureRows" and fv: "finite_values featureRows"
    by simp_all
  obtain out where out: "normalizeFeatures featureRows = Inr out"
    using ne by (cases featureRows) (auto simp: normalizeFeatures_def Let_def)
  have entry: "normalized_entry featureRows out i key"
    if i: "i < length featureRows" and key: "key \<in> set (map fst (hd featureRows))" for i key
  proof -
    define col where "col = column featureRows key"
    have g: "getf (out ! i) key = normalized_value featureRows (featureRows ! i) key"
      using normalizeFeatures_entry[OF ne i key] out by auto
    have keys: "\<forall>row \<in> set featureRows. key \<in> set (map fst row)"
      using sk key by (simp add: same_keys_def)
    have fin: "\<forall>row \<in> set featureRows. \<forall>v \<in> set (map snd row). finite_num v"
      using fv by (simp add: finite_values_def)
    have v: "getf (out ! i) key =
           (if Max (set col) = Min (set col) then Num 0
            else Num (rescale (Min (set col)) (Max (set col)) (col ! i)))"
      unfolding g col_def by (rule normalized_value_finite[OF ne i keys fin])
    have mem: "col ! i \<in> set col" using i by (simp add: col_def column_def)
    have lo: "Min (set col) \<le> col ! i" using mem by simp
    have hi: "col ! i \<le> Max (set col)" using mem by simp
    show ?thesis
    proof (cases "Max (set col) = Min (set col)")
      case True
      then show ?thesis using v by (simp add: normalized_entry_def Let_def flip: col_def)
    next
      case False
      note b = rescale_bounds[OF lo hi False]
      show ?thesis
        using v False b by (simp add: normalized_entry_def Let_def flip: col_def)
    qed
  qed
  have "length out = length featureRows"
    using out ne by (cases featureRows) (auto simp: normalizeFeatures_def Let_def)
  with out entry show "\<exists>out. normalizeFeatures featureRows = Inr out \<and> length out = length featureRows
        \<and> (\<forall>i < length featureRows. \<forall>key \<in> set (map fst (hd featureRows)).
              normalized_entry featureRows out i key)"
    by blast
qed

lemma batch_example_out:
  "normalizeFeatures batch_example =
     Inr [[(''a'', Num (- 1)), (''b'', Num 0)], [(''a'', Num 1), (''b'', Num 0)], [(''a'', Num 0), (''b'', Num 0)]]"
  by (simp add: batch_example_def normalizeFeatures_def Let_def getf_def Math_min_def Math_max_def
        strict_eq_def put_def jsub_def)

theorem normalizeFeatures_rescales_witness:
  "(batch_example \<noteq> [] \<and> same_keys batch_example \<and> finite_values batch_example)
   \<and> (\<exists>out. normalizeFeatures batch_example = Inr out \<and> length out = 3
          \<and> normalized_entry batch_example out 0 ''a'' \<and> getf (out ! 0) ''a'' = Num (- 1)
          \<and> normalized_entry batch_example out 1 ''a'' \<and> getf (out ! 1) ''a'' = Num 1
          \<and> normalized_entry batch_example out 2 ''b'' \<and> getf (out ! 2) ''b'' = Num 0)"
proof -
  have h: "batch_example \<noteq> [] \<and> same_keys batch_example \<and> finite_values batch_example"
    by (simp add: batch_example_def same_keys_def finite_values_def)
  have l: "length batch_example = 3" and k: "set (map fst (hd batch_example)) = {''a'', ''b''}"
    by (simp_all add: batch_example_def)
  from normalizeFeatures_rescales[of batch_example] h obtain out where
    o: "normalizeFeatures batch_example = Inr out" "length out = length batch_example"
      "\<forall>i < length batch_example. \<forall>key \<in> set (map fst (hd batch_example)). normalized_entry batch_example out i key"
    by blast
  have e: "normalized_entry batch_example out 0 ''a''" "normalized_entry batch_example out 1 ''a''"
    "normalized_entry batch_example out 2 ''b''"
    using o(3) unfolding l k by simp_all
  have v: "getf (out ! 0) ''a'' = Num (- 1)" "getf (out ! 1) ''a'' = Num 1" "getf (out ! 2) ''b'' = Num 0"
    using o(1) unfolding batch_example_out by (auto simp: getf_def)
  show ?thesis using h o(1,2) e v l by auto
qed

text \<open>
  Claim C4 as stated fails for a batch that holds a value that is not finite: the rows
  share their key, the column is not constant, and every output of the column is \<^verbatim>\<open>NaN\<close>,
  neither \<open>0\<close> nor a number in \<open>[-1, 1]\<close>. \<^verbatim>\<open>Math.min\<close> and \<^verbatim>\<open>Math.max\<close> return \<^verbatim>\<open>NaN\<close>,
  which is not strictly equal to itself.
\<close>

theorem normalizeFeatures_nan_counterexample:
  "same_keys nan_batch
   \<and> normalizeFeatures nan_batch = Inr [[(''a'', NaN)], [(''a'', NaN)], [(''a'', NaN)]]"
  by (simp add: nan_batch_def same_keys_def normalizeFeatures_def Let_def getf_def Math_min_def
        Math_max_def strict_eq_def put_def jsub_def)

section \<open>The keys and values of a feature vector\<close>

lemma band_feature_names_eq:
  "band_feature_names =
     [''bandsEnergy()-1,8'', ''bandsEnergy()-9,16'', ''bandsEnergy()-17,24'', ''bandsEnergy()-25,32'',
      ''bandsEnergy()-33,40'', ''bandsEnergy()-41,48'', ''bandsEnergy()-49,56'', ''bandsEnergy()-57,64'',
      ''bandsEnergy()-1,16'', ''bandsEnergy()-17,32'', ''bandsEnergy()-33,48'', ''bandsEnergy()-49,64'',
      ''bandsEnergy()-1,24'', ''bandsEnergy()-25,48'']"
  by (simp add: band_feature_names_def bands_def digit_char_def)

lemma feature_list_extracted: "feature_list = extracted_keys"
  unfolding extracted_keys_def time_signal_keys_def time_magnitude_keys_def frequency_signal_keys_def
    frequency_magnitude_keys_def angle_keys_def by_feature_def by_axis_def plain_def axes_def
    arCoeff_names_def band_feature_names_eq feature_list_def
  by simp

lemma keys_put: "fst ` set (put k v fs) = insert k (fst ` set fs)"
  by (simp add: put_def dom_update)

lemma distinct_put: "distinct (map fst fs) \<Longrightarrow> distinct (map fst (put k v fs))"
  by (simp add: put_def distinct_update)

lemma keys_foldl_put:
  "fst ` set (foldl (\<lambda>acc p. put (name p) (val p) acc) dst src) = fst ` set dst \<union> name ` set src"
proof (induction src arbitrary: dst)
  case Nil
  then show ?case by simp
next
  case (Cons p src)
  have "fst ` set (foldl (\<lambda>acc p. put (name p) (val p) acc) (put (name p) (val p) dst) src)
          = fst ` set (put (name p) (val p) dst) \<union> name ` set src"
    by (rule Cons.IH)
  then show ?case by (simp add: keys_put)
qed

lemma distinct_foldl_put:
  "distinct (map fst dst) \<Longrightarrow> distinct (map fst (foldl (\<lambda>acc p. put (name p) (val p) acc) dst src))"
  by (induction src arbitrary: dst) (simp_all add: distinct_put)

lemma put_entries_foldl:
  "put_entries name src dst = foldl (\<lambda>acc p. put (name (fst p)) (snd p) acc) dst src"
  unfolding put_entries_def case_prod_unfold ..

lemma keys_put_entries:
  "fst ` set (put_entries name src dst) = fst ` set dst \<union> name ` fst ` set src"
  by (simp add: put_entries_foldl keys_foldl_put image_image)

lemma distinct_put_entries:
  "distinct (map fst dst) \<Longrightarrow> distinct (map fst (put_entries name src dst))"
  by (simp add: put_entries_foldl distinct_foldl_put)

lemma keys_basic_statistics: "map fst (basic_statistics data) = basic_names"
  by (simp add: basic_statistics_def Let_def put_def basic_names_def)

lemma length_calculateARCoefficients [simp]: "length (calculateARCoefficients data order) = order"
  unfolding calculateARCoefficients_def Let_def
  by (rule foldl_invariant[where P = "\<lambda>s. length (fst s) = order"])
     (auto split: prod.splits)

lemma keys_calculateTimeFeatures: "map fst (calculateTimeFeatures data) = basic_names @ arCoeff_names"
proof -
  have "\<exists>c0 c1 c2 c3. xs = [c0, c1, c2, c3]" if "length xs = 4" for xs :: "jsnum list"
    using that by (auto simp: length_Suc_conv eval_nat_numeral)
  then obtain c0 c1 c2 c3 where c: "calculateARCoefficients data 4 = [c0, c1, c2, c3]"
    using length_calculateARCoefficients[of data 4] by blast
  have b: "map fst (basic_statistics data) = basic_names" by (rule keys_basic_statistics)
  obtain m s d x n e q h where bs: "basic_statistics data =
      [(''mean()'', m), (''std()'', s), (''mad()'', d), (''max()'', x), (''min()'', n),
       (''energy()'', e), (''iqr()'', q), (''entropy()'', h)]"
    by (simp add: basic_statistics_def Let_def put_def)
  show ?thesis
    by (simp add: calculateTimeFeatures_def Let_def c bs put_def upt_rec digit_char_def
          basic_names_def arCoeff_names_def)
qed

lemma calculateFrequencyFeatures_Inr_iff:
  "(\<exists>ff. calculateFrequencyFeatures fftData = Inr ff) \<longleftrightarrow> even (length fftData)"
  by (simp add: calculateFrequencyFeatures_def magnitude_spectrum_def Let_def ebind_def
        split: prod.splits)

lemma keys_calculateFrequencyFeatures:
  assumes "calculateFrequencyFeatures fftData = Inr ff"
  shows "map fst ff = basic_names @ [''meanFreq()'', ''maxInds'', ''skewness()'', ''kurtosis()'']"
proof -
  obtain m s d x n e q h where bs: "basic_statistics fftData =
      [(''mean()'', m), (''std()'', s), (''mad()'', d), (''max()'', x), (''min()'', n),
       (''energy()'', e), (''iqr()'', q), (''entropy()'', h)]"
    by (simp add: basic_statistics_def Let_def put_def)
  show ?thesis
    using assms
    by (auto simp: calculateFrequencyFeatures_def magnitude_spectrum_def Let_def ebind_def bs put_def
          basic_names_def split: prod.splits if_splits)
qed

lemma keys_calculateBandsEnergy:
  "fst ` set (calculateBandsEnergy magnitudes numBands) = set band_feature_names"
  unfolding calculateBandsEnergy_def Let_def case_prod_beta band_feature_names_def
  by (simp add: keys_foldl_put)

lemma distinct_calculateBandsEnergy: "distinct (map fst (calculateBandsEnergy magnitudes numBands))"
  unfolding calculateBandsEnergy_def Let_def case_prod_beta
  by (simp add: distinct_foldl_put)

lemma extends_put: "extends {k} fs (put k v fs)"
  by (auto simp: extends_def keys_put distinct_put) (simp add: put_def update_conv')

lemma map_of_foldl_put_other:
  "k \<notin> name ` set src \<Longrightarrow> map_of (foldl (\<lambda>acc p. put (name p) (val p) acc) dst src) k = map_of dst k"
  by (induction src arbitrary: dst) (auto simp: put_def update_conv')

lemma extends_put_entries: "extends (name ` fst ` set src) dst (put_entries name src dst)"
  unfolding extends_def
  by (auto simp: keys_put_entries distinct_put_entries)
     (simp add: put_entries_foldl map_of_foldl_put_other image_image)

lemma extends_trans: "extends K1 a b \<Longrightarrow> extends K2 b c \<Longrightarrow> extends (K1 \<union> K2) a c"
  by (auto simp: extends_def)

lemma extends_step_put: "extends K a b \<Longrightarrow> K' = insert k K \<Longrightarrow> extends K' a (put k v b)"
  using extends_trans[OF _ extends_put[of k b v], of K a] by simp

lemma extends_step_entries:
  "extends K a b \<Longrightarrow> K' = K \<union> name ` fst ` set src \<Longrightarrow> extends K' a (put_entries name src b)"
  using extends_trans[OF _ extends_put_entries[of name src b], of K a] by simp

lemma extends_refl: "extends {} fs fs"
  by (simp add: extends_def)

lemma keys_time_set: "fst ` set (calculateTimeFeatures data) = set (basic_names @ arCoeff_names)"
  using keys_calculateTimeFeatures[of data] by (metis set_map)

lemma time_signal_keys_set:
  "(\<lambda>feature. st @ ''-'' @ feature @ ''-x'') ` set (basic_names @ arCoeff_names)
   \<union> (\<lambda>feature. st @ ''-'' @ feature @ ''-y'') ` set (basic_names @ arCoeff_names)
   \<union> (\<lambda>feature. st @ ''-'' @ feature @ ''-z'') ` set (basic_names @ arCoeff_names)
   \<union> {st @ ''-sma()'', st @ ''-correlation()-x,y'', st @ ''-correlation()-x,z'', st @ ''-correlation()-y,z''}
   = set (time_signal_keys st)"
  by (simp add: time_signal_keys_def by_feature_def by_axis_def axes_def basic_names_def arCoeff_names_def
        insert_commute)

lemma time_signal_Inr:
  assumes "ps st = Some sig" "sig ''x'' = Some xs" "sig ''y'' = Some ys" "sig ''z'' = Some zs"
  shows "\<exists>fs'. time_signal ps st fs = Inr fs' \<and> extends (set (time_signal_keys st)) fs fs'
           \<and> map_of fs' (st @ ''-correlation()-x,y'') = Some (calculateCorrelation xs ys)"
proof -
  define f1 where "f1 = put_entries (\<lambda>feature. st @ ''-'' @ feature @ ''-'' @ ''x'') (calculateTimeFeatures xs) fs"
  define f2 where "f2 = put_entries (\<lambda>feature. st @ ''-'' @ feature @ ''-'' @ ''y'') (calculateTimeFeatures ys) f1"
  define f3 where "f3 = put_entries (\<lambda>feature. st @ ''-'' @ feature @ ''-'' @ ''z'') (calculateTimeFeatures zs) f2"
  define sma where "sma = jadd (jadd (jadd (Num 0) (sum_abs xs)) (sum_abs ys)) (sum_abs zs)"
  define f4 where "f4 = put (st @ ''-sma()'') (jdiv sma (len xs)) f3"
  define f5 where "f5 = put (st @ ''-correlation()-x,y'') (calculateCorrelation xs ys) f4"
  define f6 where "f6 = put (st @ ''-correlation()-x,z'') (calculateCorrelation xs zs) f5"
  define f7 where "f7 = put (st @ ''-correlation()-y,z'') (calculateCorrelation ys zs) f6"
  have r: "time_signal ps st fs = Inr f7"
    by (simp add: time_signal_def signal_of_def series_of_def assms Let_def
          f1_def f2_def f3_def f4_def f5_def f6_def f7_def sma_def)
  let ?N = "set (basic_names @ arCoeff_names)"
  let ?K3 = "(\<lambda>feature. st @ ''-'' @ feature @ ''-x'') ` ?N \<union> (\<lambda>feature. st @ ''-'' @ feature @ ''-y'') ` ?N
             \<union> (\<lambda>feature. st @ ''-'' @ feature @ ''-z'') ` ?N"
  have e1: "extends ((\<lambda>feature. st @ ''-'' @ feature @ ''-x'') ` ?N) fs f1"
    unfolding f1_def by (rule extends_step_entries[OF extends_refl]) (simp add: keys_time_set)
  have e2: "extends ((\<lambda>feature. st @ ''-'' @ feature @ ''-x'') ` ?N \<union> (\<lambda>feature. st @ ''-'' @ feature @ ''-y'') ` ?N) fs f2"
    unfolding f2_def by (rule extends_step_entries[OF e1]) (simp add: keys_time_set)
  have e3: "extends ?K3 fs f3"
    unfolding f3_def by (rule extends_step_entries[OF e2]) (simp add: keys_time_set)
  have e4: "extends (insert (st @ ''-sma()'') ?K3) fs f4"
    unfolding f4_def by (rule extends_step_put[OF e3]) simp
  have e5: "extends (insert (st @ ''-correlation()-x,y'') (insert (st @ ''-sma()'') ?K3)) fs f5"
    unfolding f5_def by (rule extends_step_put[OF e4]) simp
  have e6: "extends (insert (st @ ''-correlation()-x,z'')
              (insert (st @ ''-correlation()-x,y'') (insert (st @ ''-sma()'') ?K3))) fs f6"
    unfolding f6_def by (rule extends_step_put[OF e5]) simp
  have e7: "extends (insert (st @ ''-correlation()-y,z'') (insert (st @ ''-correlation()-x,z'')
              (insert (st @ ''-correlation()-x,y'') (insert (st @ ''-sma()'') ?K3)))) fs f7"
    unfolding f7_def by (rule extends_step_put[OF e6]) simp
  have "insert (st @ ''-correlation()-y,z'') (insert (st @ ''-correlation()-x,z'')
              (insert (st @ ''-correlation()-x,y'') (insert (st @ ''-sma()'') ?K3)))
        = set (time_signal_keys st)"
    unfolding time_signal_keys_set[symmetric] by blast
  with e7 have e: "extends (set (time_signal_keys st)) fs f7" by simp
  have m: "map_of f7 (st @ ''-correlation()-x,y'') = Some (calculateCorrelation xs ys)"
    by (simp add: f7_def f6_def f5_def put_def update_conv')
  from r e m show ?thesis by blast
qed

lemma time_magnitude_signal_Inr:
  assumes "ps st = Some sig" "sig ''mag'' = Some mag"
  shows "\<exists>fs'. time_magnitude_signal ps st fs = Inr fs' \<and> extends (set (time_magnitude_keys st)) fs fs'"
proof -
  define f1 where "f1 = put_entries (\<lambda>feature. st @ ''-'' @ feature) (calculateTimeFeatures mag) fs"
  define f2 where "f2 = put (st @ ''-sma()'') (jdiv (jadd (Num 0) (sum_abs mag)) (len mag)) f1"
  have r: "time_magnitude_signal ps st fs = Inr f2"
    by (simp add: time_magnitude_signal_def signal_of_def series_of_def assms Let_def f1_def f2_def)
  let ?N = "set (basic_names @ arCoeff_names)"
  have e1: "extends ((\<lambda>feature. st @ ''-'' @ feature) ` ?N) fs f1"
    unfolding f1_def by (rule extends_step_entries[OF extends_refl]) (simp add: keys_time_set)
  have e2: "extends (insert (st @ ''-sma()'') ((\<lambda>feature. st @ ''-'' @ feature) ` ?N)) fs f2"
    unfolding f2_def by (rule extends_step_put[OF e1]) simp
  have "insert (st @ ''-sma()'') ((\<lambda>feature. st @ ''-'' @ feature) ` ?N) = set (time_magnitude_keys st)"
    by (simp add: time_magnitude_keys_def plain_def basic_names_def arCoeff_names_def insert_commute)
  with e2 r show ?thesis by simp
qed

lemma calculateFrequencyFeatures_even:
  assumes "even (length fftData)"
  shows "\<exists>ff. calculateFrequencyFeatures fftData = Inr ff \<and> fst ` set ff = set frequency_names"
proof -
  from assms obtain ff where ff: "calculateFrequencyFeatures fftData = Inr ff"
    using calculateFrequencyFeatures_Inr_iff by blast
  have "map fst ff = frequency_names"
    unfolding frequency_names_def by (rule keys_calculateFrequencyFeatures[OF ff])
  then have "fst ` set ff = set frequency_names" by (metis set_map)
  with ff show ?thesis by blast
qed

lemma magnitude_spectrum_even: "even (length fftData) \<Longrightarrow> \<exists>m. magnitude_spectrum fftData = Inr m"
  by (simp add: magnitude_spectrum_def)

lemma frequency_magnitude_signal_Inr:
  assumes "ps st = Some sig" "sig ''mag'' = Some mag" "even (length mag)"
  shows "\<exists>fs'. frequency_magnitude_signal ps st fs = Inr fs' \<and> extends (set (frequency_magnitude_keys st)) fs fs'"
proof -
  obtain ff where ff: "calculateFrequencyFeatures mag = Inr ff" "fst ` set ff = set frequency_names"
    using calculateFrequencyFeatures_even[OF assms(3)] by blast
  define f1 where "f1 = put_entries (\<lambda>feature. st @ ''-'' @ feature) ff fs"
  define f2 where "f2 = put (st @ ''-sma()'') (jdiv (jadd (Num 0) (sum_abs mag)) (len mag)) f1"
  have r: "frequency_magnitude_signal ps st fs = Inr f2"
    by (simp add: frequency_magnitude_signal_def signal_of_def series_of_def assms ff Let_def f1_def f2_def)
  have e1: "extends ((\<lambda>feature. st @ ''-'' @ feature) ` set frequency_names) fs f1"
    unfolding f1_def by (rule extends_step_entries[OF extends_refl]) (simp add: ff)
  have e2: "extends (insert (st @ ''-sma()'') ((\<lambda>feature. st @ ''-'' @ feature) ` set frequency_names)) fs f2"
    unfolding f2_def by (rule extends_step_put[OF e1]) simp
  have "insert (st @ ''-sma()'') ((\<lambda>feature. st @ ''-'' @ feature) ` set frequency_names)
          = set (frequency_magnitude_keys st)"
    by (simp add: frequency_magnitude_keys_def plain_def frequency_names_def basic_names_def insert_commute)
  with e2 r show ?thesis by simp
qed

lemma frequency_axis_step:
  assumes "sig axis = Some axisData" "even (length axisData)" "sig ''x'' = Some xs"
  shows "\<exists>sma' fs'. frequency_axis sig st axis (sma, fs) = Inr (sma', fs')
         \<and> extends (insert (st @ ''-sma()'')
                      ((\<lambda>feature. st @ ''-'' @ feature @ ''-'' @ axis) ` set (frequency_names @ band_feature_names)))
             fs fs'"
proof -
  obtain ff where ff: "calculateFrequencyFeatures axisData = Inr ff" "fst ` set ff = set frequency_names"
    using calculateFrequencyFeatures_even[OF assms(2)] by blast
  obtain m where m: "magnitude_spectrum axisData = Inr m"
    using magnitude_spectrum_even[OF assms(2)] by blast
  let ?name = "\<lambda>feature. st @ ''-'' @ feature @ ''-'' @ axis"
  define f1 where "f1 = put_entries ?name ff fs"
  define f2 where "f2 = put (st @ ''-sma()'') (jdiv (jadd sma (sum_abs axisData)) (len xs)) f1"
  define f3 where "f3 = put_entries ?name (calculateBandsEnergy m 64) f2"
  have e1: "extends (?name ` set frequency_names) fs f1"
    unfolding f1_def by (rule extends_step_entries[OF extends_refl]) (simp add: ff)
  have e2: "extends (insert (st @ ''-sma()'') (?name ` set frequency_names)) fs f2"
    unfolding f2_def by (rule extends_step_put[OF e1]) simp
  have e3: "extends (insert (st @ ''-sma()'') (?name ` set frequency_names) \<union> ?name ` set band_feature_names) fs f3"
    unfolding f3_def by (rule extends_step_entries[OF e2]) (simp add: keys_calculateBandsEnergy)
  have "insert (st @ ''-sma()'') (?name ` set frequency_names) \<union> ?name ` set band_feature_names
          = insert (st @ ''-sma()'') (?name ` set (frequency_names @ band_feature_names))"
    by auto
  with e3 have "extends (insert (st @ ''-sma()'') (?name ` set (frequency_names @ band_feature_names))) fs f3"
    by simp
  then show ?thesis
    by (simp add: frequency_axis.simps assms ff m series_of_def Let_def f1_def f2_def f3_def)
qed

lemma frequency_signal_keys_set:
  "insert (st @ ''-sma()'') ((\<lambda>feature. st @ ''-'' @ feature @ ''-x'') ` set (frequency_names @ band_feature_names))
   \<union> insert (st @ ''-sma()'') ((\<lambda>feature. st @ ''-'' @ feature @ ''-y'') ` set (frequency_names @ band_feature_names))
   \<union> insert (st @ ''-sma()'') ((\<lambda>feature. st @ ''-'' @ feature @ ''-z'') ` set (frequency_names @ band_feature_names))
   = set (frequency_signal_keys st)"
  by (simp add: frequency_signal_keys_def by_feature_def by_axis_def axes_def frequency_names_def
        basic_names_def band_feature_names_eq insert_commute)

lemma frequency_signal_Inr:
  assumes "ps st = Some sig" "sig ''x'' = Some xs" "sig ''y'' = Some ys" "sig ''z'' = Some zs"
    "even (length xs)" "even (length ys)" "even (length zs)"
  shows "\<exists>fs'. frequency_signal ps st fs = Inr fs' \<and> extends (set (frequency_signal_keys st)) fs fs'"
proof -
  let ?K = "\<lambda>axis. insert (st @ ''-sma()'')
                ((\<lambda>feature. st @ ''-'' @ feature @ ''-'' @ axis) ` set (frequency_names @ band_feature_names))"
  obtain s1 f1 where 1: "frequency_axis sig st ''x'' (Num 0, fs) = Inr (s1, f1)" "extends (?K ''x'') fs f1"
    using frequency_axis_step[where sig = sig and axis = "''x''" and axisData = xs and xs = xs and sma = "Num 0" and fs = fs and st = st] assms by blast
  obtain s2 f2 where 2: "frequency_axis sig st ''y'' (s1, f1) = Inr (s2, f2)" "extends (?K ''y'') f1 f2"
    using frequency_axis_step[where sig = sig and axis = "''y''" and axisData = ys and xs = xs and sma = s1 and fs = f1 and st = st] assms by blast
  obtain s3 f3 where 3: "frequency_axis sig st ''z'' (s2, f2) = Inr (s3, f3)" "extends (?K ''z'') f2 f3"
    using frequency_axis_step[where sig = sig and axis = "''z''" and axisData = zs and xs = xs and sma = s2 and fs = f2 and st = st] assms by blast
  have r: "frequency_signal ps st fs = Inr f3"
    by (simp add: frequency_signal_def signal_of_def assms(1) 1 2 3)
  have "extends (?K ''x'' \<union> ?K ''y'' \<union> ?K ''z'') fs f3"
    by (rule extends_trans[OF extends_trans[OF 1(2) 2(2)] 3(2)])
  then have "extends (set (frequency_signal_keys st)) fs f3"
    unfolding frequency_signal_keys_set[symmetric] by simp
  with r show ?thesis by blast
qed

lemma time_signal_total:
  "has_axes ps st \<Longrightarrow> \<exists>fs'. time_signal ps st fs = Inr fs' \<and> extends (set (time_signal_keys st)) fs fs'"
  unfolding has_axes_def using time_signal_Inr by blast

lemma time_magnitude_signal_total:
  "has_mag ps st \<Longrightarrow> \<exists>fs'. time_magnitude_signal ps st fs = Inr fs' \<and> extends (set (time_magnitude_keys st)) fs fs'"
  unfolding has_mag_def using time_magnitude_signal_Inr by blast

lemma frequency_signal_total:
  "has_even_axes ps st \<Longrightarrow> \<exists>fs'. frequency_signal ps st fs = Inr fs' \<and> extends (set (frequency_signal_keys st)) fs fs'"
  unfolding has_even_axes_def using frequency_signal_Inr by blast

lemma frequency_magnitude_signal_total:
  "has_even_mag ps st \<Longrightarrow>
     \<exists>fs'. frequency_magnitude_signal ps st fs = Inr fs' \<and> extends (set (frequency_magnitude_keys st)) fs fs'"
  unfolding has_even_mag_def using frequency_magnitude_signal_Inr by blast

lemma efold_extends:
  assumes "\<And>x fs. x \<in> set xs \<Longrightarrow> \<exists>fs'. f x fs = Inr fs' \<and> extends (K x) fs fs'"
  shows "\<exists>fs'. efold f xs fs = Inr fs' \<and> extends (\<Union> (K ` set xs)) fs fs'"
  using assms
proof (induction xs arbitrary: fs)
  case Nil
  then show ?case by (simp add: extends_refl)
next
  case (Cons x xs)
  obtain f1 where 1: "f x fs = Inr f1" "extends (K x) fs f1"
    using Cons.prems[of x fs] by auto
  obtain f2 where 2: "efold f xs f1 = Inr f2" "extends (\<Union> (K ` set xs)) f1 f2"
    using Cons.IH[of f1] Cons.prems by auto
  have "extends (K x \<union> \<Union> (K ` set xs)) fs f2" by (rule extends_trans[OF 1(2) 2(2)])
  then show ?case using 1 2 by (simp add: ebind_def)
qed

lemma combined_has_axes:
  assumes "st \<in> set time_signal_names"
  shows "has_axes (combinedProcessedSignals a g) st"
proof -
  have "has_axes (combinedProcessedSignals a g) ''tBodyAcc''"
    "has_axes (combinedProcessedSignals a g) ''tGravityAcc''"
    "has_axes (combinedProcessedSignals a g) ''tBodyAccJerk''"
    "has_axes (combinedProcessedSignals a g) ''tBodyGyro''"
    "has_axes (combinedProcessedSignals a g) ''tBodyGyroJerk''"
    by (simp_all add: has_axes_def combinedProcessedSignals_def)
  with assms show ?thesis by (auto simp: time_signal_names_def)
qed

lemma combined_has_mag:
  assumes "st \<in> set time_magnitude_names"
  shows "has_mag (combinedProcessedSignals a g) st"
proof -
  have "has_mag (combinedProcessedSignals a g) ''tBodyAccMag''"
    "has_mag (combinedProcessedSignals a g) ''tGravityAccMag''"
    "has_mag (combinedProcessedSignals a g) ''tBodyAccJerkMag''"
    "has_mag (combinedProcessedSignals a g) ''tBodyGyroMag''"
    "has_mag (combinedProcessedSignals a g) ''tBodyGyroJerkMag''"
    by (simp_all add: has_mag_def combinedProcessedSignals_def)
  with assms show ?thesis by (auto simp: time_magnitude_names_def)
qed

lemma combined_has_even_axes:
  assumes "even_spectra a" "even_spectra g" "st \<in> set frequency_signal_names"
  shows "has_even_axes (combinedProcessedSignals a g) st"
proof -
  have "has_even_axes (combinedProcessedSignals a g) ''fBodyAcc''"
    "has_even_axes (combinedProcessedSignals a g) ''fBodyAccJerk''"
    "has_even_axes (combinedProcessedSignals a g) ''fBodyGyro''"
    using assms(1,2) by (simp_all add: has_even_axes_def combinedProcessedSignals_def even_spectra_def)
  with assms(3) show ?thesis by (auto simp: frequency_signal_names_def)
qed

lemma combined_has_even_mag:
  assumes "even_spectra a" "even_spectra g" "st \<in> set frequency_magnitude_names"
  shows "has_even_mag (combinedProcessedSignals a g) st"
proof -
  have "has_even_mag (combinedProcessedSignals a g) ''fBodyAccMag''"
    "has_even_mag (combinedProcessedSignals a g) ''fBodyBodyAccJerkMag''"
    "has_even_mag (combinedProcessedSignals a g) ''fBodyBodyGyroMag''"
    "has_even_mag (combinedProcessedSignals a g) ''fBodyBodyGyroJerkMag''"
    using assms(1,2) by (simp_all add: has_even_mag_def combinedProcessedSignals_def even_spectra_def)
  with assms(3) show ?thesis by (auto simp: frequency_magnitude_names_def)
qed

lemma correlation_key_elsewhere:
  "''tBodyAcc-correlation()-x,y'' \<notin>
     \<Union> ((\<lambda>st. set (time_signal_keys st)) ` set [''tGravityAcc'', ''tBodyAccJerk'', ''tBodyGyro'', ''tBodyGyroJerk''])
     \<union> \<Union> ((\<lambda>st. set (time_magnitude_keys st)) ` set time_magnitude_names)
     \<union> \<Union> ((\<lambda>st. set (frequency_signal_keys st)) ` set frequency_signal_names)
     \<union> \<Union> ((\<lambda>st. set (frequency_magnitude_keys st)) ` set frequency_magnitude_names)
     \<union> set angle_keys"
  by (simp add: time_signal_keys_def time_magnitude_keys_def frequency_signal_keys_def
        frequency_magnitude_keys_def angle_keys_def by_feature_def by_axis_def plain_def axes_def
        arCoeff_names_def band_feature_names_eq time_magnitude_names_def frequency_signal_names_def
        frequency_magnitude_names_def)

lemma extends_map_of: "extends K fs fs' \<Longrightarrow> k \<notin> K \<Longrightarrow> map_of fs' k = map_of fs k"
  by (simp add: extends_def)

lemma extractFeatures_combined:
  assumes "even_spectra a" "even_spectra g"
  shows "\<exists>fs. extractFeatures (combinedProcessedSignals a g) = Inr fs \<and> extends extractFeatures_keys [] fs
           \<and> map_of fs ''tBodyAcc-correlation()-x,y'' =
               Some (calculateCorrelation (axis_x (time_body (time a))) (axis_y (time_body (time a))))"
proof -
  let ?C = "combinedProcessedSignals a g"
  let ?k = "''tBodyAcc-correlation()-x,y''"
  let ?rest = "[''tGravityAcc'', ''tBodyAccJerk'', ''tBodyGyro'', ''tBodyGyroJerk'']"
  have tn: "time_signal_names = ''tBodyAcc'' # ?rest" by (simp add: time_signal_names_def)
  let ?sig = "map_of [(''x'', axis_x (time_body (time a))),
                               (''y'', axis_y (time_body (time a))),
                               (''z'', axis_z (time_body (time a)))]"
  have c: "?C ''tBodyAcc'' = Some ?sig"
    by (simp add: combinedProcessedSignals_def)
  from time_signal_Inr[where ps = ?C and st = "''tBodyAcc''" and sig = ?sig
      and xs = "axis_x (time_body (time a))" and ys = "axis_y (time_body (time a))"
      and zs = "axis_z (time_body (time a))" and fs = "[]", OF c]
  obtain f0 where 0: "time_signal ?C ''tBodyAcc'' [] = Inr f0"
      "extends (set (time_signal_keys ''tBodyAcc'')) [] f0"
      "map_of f0 ?k = Some (calculateCorrelation (axis_x (time_body (time a))) (axis_y (time_body (time a))))"
    by auto
  have "\<exists>fs'. time_signal ?C st fs = Inr fs' \<and> extends (set (time_signal_keys st)) fs fs'"
    if "st \<in> set ?rest" for st fs
    by (rule time_signal_total[OF combined_has_axes]) (use that in \<open>simp add: tn\<close>)
  from efold_extends[of ?rest "time_signal ?C" "\<lambda>st. set (time_signal_keys st)" f0, OF this]
  obtain f1 where 1: "efold (time_signal ?C) ?rest f0 = Inr f1"
      "extends (\<Union> ((\<lambda>st. set (time_signal_keys st)) ` set ?rest)) f0 f1"
    by blast
  obtain f2 where 2: "efold (time_magnitude_signal ?C) time_magnitude_names f1 = Inr f2"
      "extends (\<Union> ((\<lambda>st. set (time_magnitude_keys st)) ` set time_magnitude_names)) f1 f2"
    using efold_extends[of time_magnitude_names "time_magnitude_signal ?C" "\<lambda>st. set (time_magnitude_keys st)" f1]
      time_magnitude_signal_total[OF combined_has_mag] by blast
  obtain f3 where 3: "efold (frequency_signal ?C) frequency_signal_names f2 = Inr f3"
      "extends (\<Union> ((\<lambda>st. set (frequency_signal_keys st)) ` set frequency_signal_names)) f2 f3"
    using efold_extends[of frequency_signal_names "frequency_signal ?C" "\<lambda>st. set (frequency_signal_keys st)" f2]
      frequency_signal_total[OF combined_has_even_axes[OF assms]] by blast
  obtain f4 where 4: "efold (frequency_magnitude_signal ?C) frequency_magnitude_names f3 = Inr f4"
      "extends (\<Union> ((\<lambda>st. set (frequency_magnitude_keys st)) ` set frequency_magnitude_names)) f3 f4"
    using efold_extends[of frequency_magnitude_names "frequency_magnitude_signal ?C"
        "\<lambda>st. set (frequency_magnitude_keys st)" f3]
      frequency_magnitude_signal_total[OF combined_has_even_mag[OF assms]] by blast
  have r: "extractFeatures ?C = Inr f4"
    unfolding extractFeatures_def
    using 0(1) 1(1) 2(1) 3(1) 4(1)
    by (simp add: time_magnitude_names_def frequency_signal_names_def frequency_magnitude_names_def)
  have e04: "extends (\<Union> ((\<lambda>st. set (time_signal_keys st)) ` set ?rest)
                \<union> \<Union> ((\<lambda>st. set (time_magnitude_keys st)) ` set time_magnitude_names)
                \<union> \<Union> ((\<lambda>st. set (frequency_signal_keys st)) ` set frequency_signal_names)
                \<union> \<Union> ((\<lambda>st. set (frequency_magnitude_keys st)) ` set frequency_magnitude_names)) f0 f4"
    by (rule extends_trans[OF extends_trans[OF extends_trans[OF 1(2) 2(2)] 3(2)] 4(2)])
  have "extends (set (time_signal_keys ''tBodyAcc'')
                \<union> (\<Union> ((\<lambda>st. set (time_signal_keys st)) ` set ?rest)
                \<union> \<Union> ((\<lambda>st. set (time_magnitude_keys st)) ` set time_magnitude_names)
                \<union> \<Union> ((\<lambda>st. set (frequency_signal_keys st)) ` set frequency_signal_names)
                \<union> \<Union> ((\<lambda>st. set (frequency_magnitude_keys st)) ` set frequency_magnitude_names))) [] f4"
    by (rule extends_trans[OF 0(2) e04])
  moreover have "set (time_signal_keys ''tBodyAcc'')
                \<union> (\<Union> ((\<lambda>st. set (time_signal_keys st)) ` set ?rest)
                \<union> \<Union> ((\<lambda>st. set (time_magnitude_keys st)) ` set time_magnitude_names)
                \<union> \<Union> ((\<lambda>st. set (frequency_signal_keys st)) ` set frequency_signal_names)
                \<union> \<Union> ((\<lambda>st. set (frequency_magnitude_keys st)) ` set frequency_magnitude_names))
           = extractFeatures_keys"
    unfolding extractFeatures_keys_def tn by (simp add: Un_assoc)
  ultimately have e: "extends extractFeatures_keys [] f4" by simp
  have "map_of f4 ?k = map_of f0 ?k"
    by (rule extends_map_of[OF e04]) (use correlation_key_elsewhere in blast)
  with r e 0(3) show ?thesis by simp
qed

lemma extractAngleFeatures_combined:
  "\<exists>af. extractAngleFeatures (combinedProcessedSignals a g) = Inr af \<and> map fst af = angle_keys"
  by (simp add: extractAngleFeatures_def combinedProcessedSignals_def signal_of_def series_of_def
        Let_def put_def angle_keys_def)

lemma extracted_keys_set: "extractFeatures_keys \<union> set angle_keys = set feature_list"
  unfolding feature_list_extracted extracted_keys_def extractFeatures_keys_def
  by (simp add: time_signal_names_def time_magnitude_names_def frequency_signal_names_def
        frequency_magnitude_names_def Un_assoc)

lemma processSignalWindow_combined:
  assumes "processSensorData accWindow (Num 20) = Inr a" "processSensorData gyroWindow (Num 20) = Inr g"
    "even_spectra a" "even_spectra g"
  shows "\<exists>row. processSignalWindow accWindow gyroWindow = Inr row
           \<and> fst ` set row = set feature_list \<and> distinct (map fst row)
           \<and> map_of row ''tBodyAcc-correlation()-x,y'' =
               Some (calculateCorrelation (axis_x (time_body (time a))) (axis_y (time_body (time a))))"
proof -
  obtain fs where fs: "extractFeatures (combinedProcessedSignals a g) = Inr fs"
      "extends extractFeatures_keys [] fs"
      "map_of fs ''tBodyAcc-correlation()-x,y'' =
         Some (calculateCorrelation (axis_x (time_body (time a))) (axis_y (time_body (time a))))"
    using extractFeatures_combined[OF assms(3,4)] by blast
  obtain af where af: "extractAngleFeatures (combinedProcessedSignals a g) = Inr af" "map fst af = angle_keys"
    using extractAngleFeatures_combined by blast
  define row where "row = put_entries (\<lambda>feature. feature) af fs"
  have r: "processSignalWindow accWindow gyroWindow = Inr row"
    by (simp add: processSignalWindow_def assms(1,2) fs(1) af(1) Let_def row_def)
  have "fst ` set af = set angle_keys" using af(2) by (metis set_map)
  then have e1: "extends (set angle_keys) fs row"
    unfolding row_def using extends_put_entries[of "\<lambda>feature. feature" af fs] by simp
  have e: "extends (extractFeatures_keys \<union> set angle_keys) [] row"
    by (rule extends_trans[OF fs(2) e1])
  have k: "fst ` set row = set feature_list"
    using e by (simp add: extends_def extracted_keys_set)
  have d: "distinct (map fst row)" using e by (simp add: extends_def)
  have "map_of row ''tBodyAcc-correlation()-x,y'' = map_of fs ''tBodyAcc-correlation()-x,y''"
    by (rule extends_map_of[OF e1]) (use correlation_key_elsewhere in blast)
  with r k d fs(3) show ?thesis by simp
qed

lemma sort_numbers_zeros: "sort_numbers (replicate k (Num 0)) = replicate k (Num 0)"
proof (induction k)
  case 0
  then show ?case by (simp add: sort_numbers_def)
next
  case (Suc k)
  have "insert_sorted (Num 0) (replicate k (Num 0)) = Num 0 # replicate k (Num 0)"
    by (cases k) (simp_all add: comparator_positive_def jsub_def)
  with Suc show ?case by (simp add: sort_numbers_def)
qed

lemma medianFilter_zeros: "medianFilter (replicate n (Num 0)) 3 = replicate n (Num 0)"
proof (rule nth_equalityI)
  show "length (medianFilter (replicate n (Num 0)) 3) = length (replicate n (Num 0))" by simp
next
  fix i assume "i < length (medianFilter (replicate n (Num 0)) 3)"
  then have i: "i < n" by simp
  define lo where "lo = i - 1"
  define hi where "hi = min n (i + 2)"
  have lh: "lo < hi" "hi \<le> n" using i by (auto simp: lo_def hi_def)
  have w: "map (\<lambda>j. replicate n (Num 0) ! j) [lo ..< hi] = replicate (hi - lo) (Num 0)"
    using lh by (intro nth_equalityI) auto
  have "(hi - lo) div 2 < hi - lo" using lh by simp
  then have "aget (replicate (hi - lo) (Num 0)) ((hi - lo) div 2) = Num 0"
    by (simp add: aget_def)
  then have "medianFilter (replicate n (Num 0)) 3 ! i = Num 0"
    using i w by (simp add: medianFilter_def Let_def sort_numbers_zeros lo_def hi_def)
  then show "medianFilter (replicate n (Num 0)) 3 ! i = replicate n (Num 0) ! i"
    using i by simp
qed

lemma butterworth_loop_zeros:
  "butterworth_loop (Num b0) (Num b1) (Num b2) (Num a1) (Num a2) (replicate n (Num 0))
     (Num 0, Num 0, Num 0, Num 0) = replicate n (Num 0)"
  by (induction n) (simp_all add: jsub_def Let_def)

lemma butterworth_denominator: "1 + sqrt 2 * w + w * w \<noteq> (0 :: real)"
proof -
  have "1 + sqrt 2 * w + w * w = (w + sqrt 2 / 2)\<^sup>2 + 1 / 2"
    by (simp add: power2_eq_square algebra_simps)
  moreover have "0 \<le> (w + sqrt 2 / 2)\<^sup>2" by simp
  ultimately show ?thesis by linarith
qed

lemma butterworthFilter_zeros:
  "butterworthFilter (replicate n (Num 0)) (Num c) order = replicate n (Num 0)"
  using butterworth_denominator[of "tan (pi * c / 50)"]
  by (simp add: butterworthFilter_def samplingRate_def Let_def jsub_def butterworth_loop_zeros)

lemma processAxis_zeros:
  assumes "processAxis (replicate n (Num 0)) ts (Num c) = Inr r"
  shows "bodyComponent r = replicate n (Num 0)"
proof -
  have z: "map (\<lambda>(val, i). jsub val (aget (replicate n (Num 0)) i)) (zip (replicate n (Num 0)) [0 ..< n])
             = replicate n (Num 0)"
    by (intro nth_equalityI) (auto simp: aget_def jsub_def)
  show ?thesis
    using assms
    by (auto simp: processAxis_def Let_def medianFilter_zeros butterworthFilter_zeros z ebind_def
          split: sum.splits)
qed

lemma calculateCorrelation_zeros:
  "calculateCorrelation (replicate n (Num 0)) (replicate n (Num 0)) = NaN"
proof -
  let ?zs = "replicate n (Num 0)"
  have z: "dbl 0 = Num 0" by (simp add: dbl_def)
  have s: "foldl dadd (Num 0) ?zs = Num 0"
    by (rule foldl_invariant) (auto simp: dadd_def z)
  have m: "ddiv (Num 0) (len ?zs) = Num 0 \<or> ddiv (Num 0) (len ?zs) = NaN"
    by (simp add: ddiv_def len_def z)
  have num: "reduce_i (\<lambda>sum x i. dadd sum (dmul (dsub x (Num 0)) (dsub (aget ?zs i) (Num 0))))
               (Num 0) ?zs = Num 0"
    unfolding reduce_i_def
    by (rule foldl_invariant)
       (auto simp: dadd_def dmul_def dsub_def jsub_def aget_def z set_zip)
  have sq: "foldl (\<lambda>sum x. dadd sum (dpow (dsub x (Num 0)) 2)) (Num 0) ?zs = Num 0"
    by (rule foldl_invariant) (auto simp: dadd_def dpow_def dsub_def jsub_def z)
  show ?thesis
  proof (cases "n = 0")
    case True
    then show ?thesis
      by (simp add: calculateCorrelation_def Let_def len_def reduce_i_def
            ddiv_def dsqrt_def dmul_def z)
  next
    case False
    then have m0: "ddiv (Num 0) (len ?zs) = Num 0"
      by (simp add: ddiv_def len_def z)
    show ?thesis
      unfolding calculateCorrelation_def Let_def s m0 num sq
      by (simp add: ddiv_def dsqrt_def dmul_def z)
  qed
qed

lemma even_spectra_signals_of_axes:
  assumes "even (length (frequencyDomain xP))" "even (length (frequencyDomain yP))"
    "even (length (frequencyDomain zP))"
  shows "even_spectra (signals_of_axes xP yP zP)"
  using assms by (simp add: even_spectra_def signals_of_axes_def)

lemma processSignalWindow_total:
  assumes "2 \<le> length accWindow" "2 \<le> length gyroWindow"
  shows "\<exists>xP yP row.
           processAxis (map reading_x accWindow) (map timestamp accWindow) (Num 20) = Inr xP
         \<and> processAxis (map reading_y accWindow) (map timestamp accWindow) (Num 20) = Inr yP
         \<and> processSignalWindow accWindow gyroWindow = Inr row
         \<and> fst ` set row = set feature_list \<and> distinct (map fst row)
         \<and> map_of row ''tBodyAcc-correlation()-x,y'' =
               Some (calculateCorrelation (bodyComponent xP) (bodyComponent yP))"
proof -
  from processSensorData_shape[OF assms(1), of "Num 20"] obtain xP yP zP where
    a: "processSensorData accWindow (Num 20) = Inr (signals_of_axes xP yP zP)"
    and al: "length (frequencyDomain xP) = 2 * fftSize_of (length accWindow)"
      "length (frequencyDomain yP) = 2 * fftSize_of (length accWindow)"
      "length (frequencyDomain zP) = 2 * fftSize_of (length accWindow)"
    by blast
  from processSensorData_shape[OF assms(2), of "Num 20"] obtain xG yG zG where
    g: "processSensorData gyroWindow (Num 20) = Inr (signals_of_axes xG yG zG)"
    and gl: "length (frequencyDomain xG) = 2 * fftSize_of (length gyroWindow)"
      "length (frequencyDomain yG) = 2 * fftSize_of (length gyroWindow)"
      "length (frequencyDomain zG) = 2 * fftSize_of (length gyroWindow)"
    by blast
  have ea: "even_spectra (signals_of_axes xP yP zP)"
    by (rule even_spectra_signals_of_axes) (simp_all add: al)
  have eg: "even_spectra (signals_of_axes xG yG zG)"
    by (rule even_spectra_signals_of_axes) (simp_all add: gl)
  from processSignalWindow_combined[OF a g ea eg] obtain row where
    row: "processSignalWindow accWindow gyroWindow = Inr row" "fst ` set row = set feature_list"
      "distinct (map fst row)"
      "map_of row ''tBodyAcc-correlation()-x,y'' =
         Some (calculateCorrelation (axis_x (time_body (time (signals_of_axes xP yP zP))))
                 (axis_y (time_body (time (signals_of_axes xP yP zP)))))"
    by blast
  have "processReadings [] accWindow (Num 20) = Inr (signals_of_axes xP yP zP)"
    using a by (simp add: processSensorData_eq[of _ _ "[]"])
  then obtain xP' yP' zP' where
    ax: "processAxis (map reading_x accWindow) (map timestamp accWindow) (Num 20) = Inr xP'"
      "processAxis (map reading_y accWindow) (map timestamp accWindow) (Num 20) = Inr yP'"
    and eq: "signals_of_axes xP yP zP = signals_of_axes xP' yP' zP'"
    unfolding processReadings_Inr_iff by blast
  have "map_of row ''tBodyAcc-correlation()-x,y'' = Some (calculateCorrelation (bodyComponent xP') (bodyComponent yP'))"
    using row(4) unfolding eq by (simp add: signals_of_axes_def)
  with ax row(1,2,3) show ?thesis by blast
qed

text \<open>
  Claim C1, as amended. For two windows of at least two readings each, the 128-sample
  windows among them, \<^verbatim>\<open>processSignalWindow\<close> returns a feature vector whose keys are
  exactly the keys of the canonical list of 561 entries, each key once. Nothing is said of
  the values: they need not be finite.
\<close>

theorem feature_keys:
  "(2 \<le> length accWindow \<and> 2 \<le> length gyroWindow \<longrightarrow>
      (\<exists>row. processSignalWindow accWindow gyroWindow = Inr row
         \<and> set (map fst row) = set feature_list \<and> distinct (map fst row)))
   \<and> length feature_list = 561"
proof (intro conjI impI)
  assume "2 \<le> length accWindow \<and> 2 \<le> length gyroWindow"
  then show "\<exists>row. processSignalWindow accWindow gyroWindow = Inr row
         \<and> set (map fst row) = set feature_list \<and> distinct (map fst row)"
    using processSignalWindow_total[of accWindow gyroWindow] by auto
next
  show "length feature_list = 561" by (simp add: feature_list_def)
qed

lemma window_lengths:
  "length (map still_at [0 ..< 128]) = 128" "length (map sample_at [0 ..< 128]) = 128"
  by (simp_all only: length_map length_upt diff_zero)

theorem feature_keys_witness:
  "(2 \<le> length (map still_at [0 ..< 128]) \<and> 2 \<le> length (map sample_at [0 ..< 128]))
   \<and> (\<exists>row. processSignalWindow (map still_at [0 ..< 128]) (map sample_at [0 ..< 128]) = Inr row
         \<and> set (map fst row) = set feature_list)"
proof -
  define acc where "acc = map still_at [0 ..< 128]"
  define gyro where "gyro = map sample_at [0 ..< 128]"
  have l: "length acc = 128" "length gyro = 128"
    unfolding acc_def gyro_def by (rule window_lengths)+
  have h: "2 \<le> length acc \<and> 2 \<le> length gyro" unfolding l by simp
  have "2 \<le> length acc \<and> 2 \<le> length gyro \<longrightarrow>
      (\<exists>row. processSignalWindow acc gyro = Inr row
         \<and> set (map fst row) = set feature_list \<and> distinct (map fst row))"
    by (rule conjunct1[OF feature_keys[of acc gyro]])
  from this h have "\<exists>row. processSignalWindow acc gyro = Inr row
         \<and> set (map fst row) = set feature_list \<and> distinct (map fst row)"
    by (rule mp)
  then obtain row where "processSignalWindow acc gyro = Inr row" "set (map fst row) = set feature_list"
    by (elim exE conjE)
  with h show ?thesis unfolding acc_def gyro_def by (intro conjI exI[of _ row]) simp_all
qed

lemma still_axes:
  "map reading_x (map still_at is) = replicate (length is) (Num 0)"
  "map reading_y (map still_at is) = replicate (length is) (Num 0)"
  by (induction "is") (simp_all add: still_at_def)

text \<open>
  Claim C1 as stated fails on the values: for 128 readings of a device lying still, with
  the x and y axes at zero, the body components of x and y are zero throughout and their
  correlation is \<^verbatim>\<open>0/0\<close>, so the feature \<^verbatim>\<open>tBodyAcc-correlation()-x,y\<close> is \<^verbatim>\<open>NaN\<close>.
\<close>

theorem feature_not_finite:
  "feature_of (processSignalWindow (map still_at [0 ..< 128]) (map sample_at [0 ..< 128]))
     ''tBodyAcc-correlation()-x,y'' = Some NaN"
proof -
  define acc where "acc = map still_at [0 ..< 128]"
  define gyro where "gyro = map sample_at [0 ..< 128]"
  have l: "length acc = 128" "length gyro = 128"
    unfolding acc_def gyro_def by (rule window_lengths)+
  have h: "2 \<le> length acc" "2 \<le> length gyro" unfolding l by simp_all
  have x: "map reading_x acc = replicate 128 (Num 0)"
    unfolding acc_def still_axes by (simp only: length_upt diff_zero)
  have y: "map reading_y acc = replicate 128 (Num 0)"
    unfolding acc_def still_axes by (simp only: length_upt diff_zero)
  from processSignalWindow_total[OF h] obtain xP yP row where
    p: "processAxis (map reading_x acc) (map timestamp acc) (Num 20) = Inr xP"
       "processAxis (map reading_y acc) (map timestamp acc) (Num 20) = Inr yP"
       "processSignalWindow acc gyro = Inr row"
       "map_of row ''tBodyAcc-correlation()-x,y'' = Some (calculateCorrelation (bodyComponent xP) (bodyComponent yP))"
    by blast
  have bx: "bodyComponent xP = replicate 128 (Num 0)"
    using p(1) unfolding x by (rule processAxis_zeros)
  have by': "bodyComponent yP = replicate 128 (Num 0)"
    using p(2) unfolding y by (rule processAxis_zeros)
  have "map_of row ''tBodyAcc-correlation()-x,y'' = Some NaN"
    unfolding p(4) bx by' calculateCorrelation_zeros ..
  then have "feature_of (processSignalWindow acc gyro) ''tBodyAcc-correlation()-x,y'' = Some NaN"
    unfolding p(3) feature_of_def by simp
  then show ?thesis unfolding acc_def gyro_def .
qed

end
